theory Spec2Isabelle
  imports Complex_Main
begin

section \<open>Data model (hooks/use-supabase.ts, lines 7-76)\<close>

text \<open>
  The order-tracking hook and page are embedded as pure functions over explicit state.
  Conventions of the embedding:
  \<^item> an optional field of an order header is a value of \<open>'a js\<close>: \<open>undefined\<close>, \<open>null\<close> or a
    value. The two absent values are kept apart because the source treats them differently:
    the backend answers a null column with \<open>null\<close>, and the payload of an update carries a
    \<open>null\<close> and drops an \<open>undefined\<close>;
  \<^item> an optional field of a line item, of a missing or returned item and of a history entry
    is an \<open>option\<close>: the source only tests these for truthiness and only inserts them, and
    an insert stores \<open>undefined\<close> and \<open>null\<close> alike as null;
  \<^item> a JavaScript number is a rational (the claims concern zero against non-zero and equality
    only; \<open>NaN\<close> and the infinities are outside the model); \<open>Number.parseFloat\<close> of a number is
    that number;
  \<^item> a \<open>Date\<close>, and the ISO string the backend keeps for it, is its epoch time in milliseconds;
  \<^item> field names that would clash between records (or with HOL's \<open>id\<close>) carry a short prefix
    of their record; every other name is the source's.
\<close>

datatype 'a js = Undefined | Null | Val 'a

text \<open>The value of an optional field, when it has one.\<close>

definition present :: "'a js \<Rightarrow> 'a option" where
  "present x = (case x of Val v \<Rightarrow> Some v | _ \<Rightarrow> None)"

text \<open>A column as the backend answers it: null or a value.\<close>

definition ofColumn :: "'a option \<Rightarrow> 'a js" where
  "ofColumn c = (case c of None \<Rightarrow> Null | Some v \<Rightarrow> Val v)"

text \<open>\<open>c ? v : undefined\<close>, once the test and the conversion have given a value or nothing.\<close>

definition orUndefined :: "'a option \<Rightarrow> 'a js" where
  "orUndefined c = (case c of None \<Rightarrow> Undefined | Some v \<Rightarrow> Val v)"

datatype OrderStatus =
    en_armado | armado | armado_controlado | facturado
  | factura_controlada | en_transito | entregado | pagado

datatype Role = vale | armador

datatype PaymentMethod = efectivo | transferencia

record User =
  u_id :: string
  u_name :: string
  u_role :: Role

record Product =
  p_id :: string
  p_code :: "string option"
  p_name :: string
  p_quantity :: rat
  originalQuantity :: "rat option"
  isChecked :: "bool option"
  unitPrice :: "rat option"
  subtotal :: "rat option"

record MissingProduct =
  m_productId :: string
  m_productName :: string
  m_code :: "string option"
  m_quantity :: rat

record ReturnedProduct =
  r_productId :: string
  r_productName :: string
  r_code :: "string option"
  r_quantity :: rat
  reason :: "string option"

record HistoryEntry =
  h_id :: string
  action :: string
  h_user :: string
  timestamp :: int
  h_notes :: "string option"

record Order =
  o_id :: string
  clientName :: string
  clientAddress :: string
  products :: "Product list"
  status :: OrderStatus
  missingProducts :: "MissingProduct list"
  returnedProducts :: "ReturnedProduct list"
  paymentMethod :: "PaymentMethod js"
  isPaid :: bool
  createdAt :: int
  history :: "HistoryEntry list"
  armedBy :: "string js"
  controlledBy :: "string js"
  awaitingPaymentVerification :: "bool js"
  initialNotes :: "string js"
  currentlyWorkingBy :: "string js"
  workingStartTime :: "int js"
  totalAmount :: "rat js"

section \<open>Backend rows and \<open>mapOrderRow\<close> (lines 130-171)\<close>

text \<open>
  The rows of the five tables, with the column names the source reads and writes. A numeric
  column holds a number or null.
\<close>

record ProductRow =
  pr_id :: string
  pr_order_id :: string
  pr_code :: "string option"
  pr_name :: string
  pr_quantity :: rat
  original_quantity :: "rat option"
  is_checked :: "bool option"
  unit_price :: "rat option"
  pr_subtotal :: "rat option"

record MissingRow =
  mr_order_id :: string
  mr_product_id :: string
  mr_product_name :: string
  mr_code :: "string option"
  mr_quantity :: rat

record ReturnedRow =
  rr_order_id :: string
  rr_product_id :: string
  rr_product_name :: string
  rr_code :: "string option"
  rr_quantity :: rat
  rr_reason :: "string option"

record HistoryRow =
  hr_id :: string
  hr_order_id :: string
  hr_action :: string
  user_name :: string
  hr_notes :: "string option"
  hr_created_at :: int

record OrderRow =
  or_id :: string
  client_name :: string
  client_address :: "string option"
  or_status :: OrderStatus
  payment_method :: "PaymentMethod option"
  is_paid :: bool
  armed_by :: "string option"
  controlled_by :: "string option"
  awaiting_payment_verification :: "bool option"
  initial_notes :: "string option"
  created_at :: int
  currently_working_by :: "string option"
  working_start_time :: "int option"
  total_amount :: "rat option"

text \<open>
  What the select of \<open>fetchOrders\<close> yields for one order: the header row with its four
  embedded collections (\<open>*, products (*), missing_products (*), returned_products (*),
  order_history (*)\<close>). An embedded collection may be null (\<open>orderData.products || []\<close>).
\<close>

record OrderData =
  row :: OrderRow
  d_products :: "ProductRow list option"
  d_missing_products :: "MissingRow list option"
  d_returned_products :: "ReturnedRow list option"
  d_order_history :: "HistoryRow list option"

text \<open>\<open>x ? Number.parseFloat(x) : undefined\<close>: null and the number 0 are both falsy.\<close>

definition parseIfTruthy :: "rat option \<Rightarrow> rat option" where
  "parseIfTruthy x = (case x of None \<Rightarrow> None | Some v \<Rightarrow> if v = 0 then None else Some v)"

text \<open>\<open>xs || []\<close> for an array or null.\<close>

definition orEmpty :: "'a list option \<Rightarrow> 'a list" where
  "orEmpty x = (case x of None \<Rightarrow> [] | Some xs \<Rightarrow> xs)"

definition mapProductRow :: "ProductRow \<Rightarrow> Product" where
  "mapProductRow p =
     \<lparr> p_id = pr_id p,
       p_code = pr_code p,
       p_name = pr_name p,
       p_quantity = pr_quantity p,
       originalQuantity = parseIfTruthy (original_quantity p),
       isChecked = is_checked p,
       unitPrice = parseIfTruthy (unit_price p),
       subtotal = parseIfTruthy (pr_subtotal p) \<rparr>"

definition mapMissingRow :: "MissingRow \<Rightarrow> MissingProduct" where
  "mapMissingRow m =
     \<lparr> m_productId = mr_product_id m,
       m_productName = mr_product_name m,
       m_code = mr_code m,
       m_quantity = mr_quantity m \<rparr>"

definition mapReturnedRow :: "ReturnedRow \<Rightarrow> ReturnedProduct" where
  "mapReturnedRow r =
     \<lparr> r_productId = rr_product_id r,
       r_productName = rr_product_name r,
       r_code = rr_code r,
       r_quantity = rr_quantity r,
       reason = rr_reason r \<rparr>"

definition mapHistoryRow :: "HistoryRow \<Rightarrow> HistoryEntry" where
  "mapHistoryRow h =
     \<lparr> h_id = hr_id h,
       action = hr_action h,
       h_user = user_name h,
       timestamp = hr_created_at h,
       h_notes = hr_notes h \<rparr>"

text \<open>
  \<open>Array.prototype.sort\<close> with \<open>a.timestamp - b.timestamp\<close> is a stable sort by timestamp,
  as \<open>sort_key\<close> is. The six optional fields that \<open>mapOrderRow\<close> copies are \<open>null\<close> when the
  column is null. The truthiness test on \<open>working_start_time\<close> holds for every stored time,
  which arrives as a non-empty ISO string, so that field is the time or \<open>undefined\<close>; and
  \<open>totalAmount\<close> is the amount or \<open>undefined\<close>.
\<close>

definition mapOrderRow :: "OrderData \<Rightarrow> Order" where
  "mapOrderRow orderData =
     \<lparr> o_id = or_id (row orderData),
       clientName = client_name (row orderData),
       clientAddress = (case client_address (row orderData) of None \<Rightarrow> [] | Some a \<Rightarrow> a),
       products = map mapProductRow (orEmpty (d_products orderData)),
       status = or_status (row orderData),
       missingProducts = map mapMissingRow (orEmpty (d_missing_products orderData)),
       returnedProducts = map mapReturnedRow (orEmpty (d_returned_products orderData)),
       paymentMethod = ofColumn (payment_method (row orderData)),
       isPaid = is_paid (row orderData),
       createdAt = created_at (row orderData),
       history = sort_key timestamp (map mapHistoryRow (orEmpty (d_order_history orderData))),
       armedBy = ofColumn (armed_by (row orderData)),
       controlledBy = ofColumn (controlled_by (row orderData)),
       awaitingPaymentVerification = ofColumn (awaiting_payment_verification (row orderData)),
       initialNotes = ofColumn (initial_notes (row orderData)),
       currentlyWorkingBy = ofColumn (currently_working_by (row orderData)),
       workingStartTime = orUndefined (working_start_time (row orderData)),
       totalAmount = orUndefined (parseIfTruthy (total_amount (row orderData))) \<rparr>"

section \<open>Derived buckets of the page (page component, lines 258-260)\<close>

definition activeOrders :: "Order list \<Rightarrow> Order list" where
  "activeOrders orders = filter (\<lambda>r. status r \<noteq> pagado \<and> status r \<noteq> entregado) orders"

definition pendingPaymentOrders :: "Order list \<Rightarrow> Order list" where
  "pendingPaymentOrders orders = filter (\<lambda>r. status r = entregado \<and> \<not> isPaid r) orders"

definition completedOrders :: "Order list \<Rightarrow> Order list" where
  "completedOrders orders = filter (\<lambda>r. status r = pagado) orders"

section \<open>The environment of one call\<close>

text \<open>
  Everything a call takes from outside is an explicit argument: the successive readings of
  the clock (\<open>Date.now()\<close>, \<open>new Date()\<close>), the successive timestamp-and-random suffixes of
  \<open>generateUniqueId\<close>, and which of the call's accesses to the backend, to local storage or
  to the broadcast slot fail (a backend error object, or an exception of \<open>localStorage\<close> and
  \<open>JSON.parse\<close>). A failed access changes nothing in the store it addresses.
\<close>

datatype Access =
    LocalRead | LocalWrite | Broadcast
  | SelectOrders | InsertOrder | InsertProducts | InsertHistory
  | UpdateWorking | UpdateOrder | DeleteProducts | DeleteMissing | InsertMissing
  | DeleteReturned | InsertReturned | SelectHistory | DeleteOrder

record Env =
  clock :: "nat \<Rightarrow> int"
  rnd :: "nat \<Rightarrow> string"
  fails :: "Access \<Rightarrow> bool"

text \<open>\<open>generateUniqueId(prefix)\<close>, at the \<open>k\<close>-th use within the call (line 111).\<close>

definition generateUniqueId :: "string \<Rightarrow> Env \<Rightarrow> nat \<Rightarrow> string" where
  "generateUniqueId prefix env k = prefix @ rnd env k"

text \<open>\<open>s || alt\<close> for a string: the empty string is falsy.\<close>

definition strOr :: "string \<Rightarrow> string \<Rightarrow> string" where
  "strOr s alt = (if s = [] then alt else s)"

text \<open>
  Truthiness of an optional string: absent and empty are falsy. For a field of an order it
  is applied to \<open>present\<close> of the field.
\<close>

definition truthyStr :: "string option \<Rightarrow> bool" where
  "truthyStr x = (case x of None \<Rightarrow> False | Some s \<Rightarrow> s \<noteq> [])"

section \<open>The stores\<close>

text \<open>
  The remote backend is five tables. An insert appends rows, an update rewrites the rows a
  filter selects, a delete removes them. The local fallback is the slot \<open>orders\<close> of
  \<open>localStorage\<close>: absent, or a serialized order list (serializing and parsing again gives the
  list back). The module-level cache is \<open>ordersCache\<close> with \<open>lastFetchTime\<close> (lines 114-116).
\<close>

record DB =
  t_orders :: "OrderRow list"
  t_products :: "ProductRow list"
  t_missing_products :: "MissingRow list"
  t_returned_products :: "ReturnedRow list"
  t_order_history :: "HistoryRow list"

record State =
  ordersCache :: "Order list"
  lastFetchTime :: int
  localOrders :: "Order list option"
  db :: DB

definition CACHE_MS :: int where
  "CACHE_MS = 5000"

text \<open>\<open>saved ? JSON.parse(saved) : []\<close>.\<close>

definition savedList :: "State \<Rightarrow> Order list" where
  "savedList st = (case localOrders st of None \<Rightarrow> [] | Some l \<Rightarrow> l)"

text \<open>
  \<open>i = xs.findIndex(P); if (i >= 0) xs[i] = f(xs[i])\<close>: the first element satisfying \<open>P\<close> is
  replaced, and nothing changes when there is none.
\<close>

fun updateFirst :: "('a \<Rightarrow> bool) \<Rightarrow> ('a \<Rightarrow> 'a) \<Rightarrow> 'a list \<Rightarrow> 'a list" where
  "updateFirst P f [] = []"
| "updateFirst P f (x # xs) = (if P x then f x # xs else x # updateFirst P f xs)"

text \<open>The embedded select: each header row with the rows of the four tables that name it.\<close>

definition embed :: "DB \<Rightarrow> OrderRow \<Rightarrow> OrderData" where
  "embed d r =
     \<lparr> row = r,
       d_products = Some (filter (\<lambda>p. pr_order_id p = or_id r) (t_products d)),
       d_missing_products = Some (filter (\<lambda>m. mr_order_id m = or_id r) (t_missing_products d)),
       d_returned_products =
         Some (filter (\<lambda>x. rr_order_id x = or_id r) (t_returned_products d)),
       d_order_history = Some (filter (\<lambda>h. hr_order_id h = or_id r) (t_order_history d)) \<rparr>"

text \<open>
  The query of \<open>fetchOrders\<close> (lines 196-210): newest first, then either the orders that are
  not \<open>pagado\<close>, at most 60, or at most 200 of all.
\<close>

definition selectOrders :: "bool \<Rightarrow> DB \<Rightarrow> OrderData list" where
  "selectOrders prioritizeActive d =
     (let newestFirst = rev (sort_key created_at (t_orders d))
      in map (embed d)
           (if prioritizeActive
            then take 60 (filter (\<lambda>r. or_status r \<noteq> pagado) newestFirst)
            else take 200 newestFirst))"

section \<open>\<open>fetchOrders\<close> (lines 174-233)\<close>

text \<open>
  The result is the returned list with the state after the call. In local mode each parsed
  order is revived (lines 185-190): the serialized times become \<open>Date\<close>s again, which the
  embedding does not distinguish, and a \<open>workingStartTime\<close> that is not a time becomes
  \<open>undefined\<close>.
\<close>

definition reviveOrder :: "Order \<Rightarrow> Order" where
  "reviveOrder r = r\<lparr>workingStartTime := orUndefined (present (workingStartTime r))\<rparr>"

definition fetchOrders :: "bool \<Rightarrow> Env \<Rightarrow> bool \<Rightarrow> bool \<Rightarrow> State \<Rightarrow> Order list \<times> State" where
  "fetchOrders useLocalStorage env forceRefresh prioritizeActive st =
     (let now = clock env 0 in
      if \<not> forceRefresh \<and> ordersCache st \<noteq> [] \<and> now - lastFetchTime st < CACHE_MS
      then (ordersCache st, st)
      else if useLocalStorage then
        (if fails env LocalRead then (ordersCache st, st)
         else case localOrders st of
           None \<Rightarrow> ([], st)
         | Some saved \<Rightarrow>
             (let parsed = map reviveOrder saved
              in (parsed, st\<lparr>ordersCache := parsed, lastFetchTime := now\<rparr>)))
      else if fails env SelectOrders then (ordersCache st, st)
      else
        (let mapped = map mapOrderRow (selectOrders prioritizeActive (db st));
             merged = (if prioritizeActive
                       then mapped @ filter (\<lambda>r. status r = pagado) (ordersCache st)
                       else mapped)
         in (merged, st\<lparr>ordersCache := merged, lastFetchTime := now\<rparr>)))"

section \<open>\<open>createOrder\<close> (lines 266-375)\<close>

text \<open>The argument of \<open>createOrder\<close>: an order without the nine omitted fields.\<close>

record NewOrderData =
  n_clientName :: string
  n_clientAddress :: string
  n_products :: "Product list"
  n_paymentMethod :: "PaymentMethod js"
  n_armedBy :: "string js"
  n_controlledBy :: "string js"
  n_awaitingPaymentVerification :: "bool js"
  n_initialNotes :: "string js"
  n_totalAmount :: "rat js"

definition createdAction :: string where
  "createdAction = ''Presupuesto creado y pedido listo para armar''"

text \<open>
  The order put into the cache before anything is persisted (lines 284-308). The suffixes of
  the generated ids are numbered in the order of the calls: 0 the order id, 1 the history
  entry, \<open>2 + i\<close> the \<open>i\<close>-th product.
\<close>

definition optimisticOrder :: "Env \<Rightarrow> NewOrderData \<Rightarrow> User \<Rightarrow> Order" where
  "optimisticOrder env orderData currentUser =
     \<lparr> o_id = generateUniqueId ''PED-'' env 0,
       clientName = n_clientName orderData,
       clientAddress = n_clientAddress orderData,
       products =
         map (\<lambda>(i, p). p\<lparr> p_id := strOr (p_id p) (generateUniqueId ''PROD-'' env (2 + i)),
                          originalQuantity := Some (p_quantity p),
                          isChecked := Some False \<rparr>)
           (enumerate 0 (n_products orderData)),
       status = en_armado,
       missingProducts = [],
       returnedProducts = [],
       paymentMethod = n_paymentMethod orderData,
       isPaid = False,
       createdAt = clock env 0,
       history =
         [\<lparr> h_id = generateUniqueId ''HIST-'' env 1,
            action = createdAction,
            h_user = u_name currentUser,
            timestamp = clock env 1,
            h_notes = (if truthyStr (present (n_initialNotes orderData))
                       then present (n_initialNotes orderData) else None) \<rparr>],
       armedBy = n_armedBy orderData,
       controlledBy = n_controlledBy orderData,
       awaitingPaymentVerification = n_awaitingPaymentVerification orderData,
       initialNotes = n_initialNotes orderData,
       currentlyWorkingBy = Undefined,
       workingStartTime = Undefined,
       totalAmount = n_totalAmount orderData \<rparr>"

text \<open>
  The rows of the three inserts (lines 326-357). An insert stores \<open>undefined\<close> and \<open>null\<close>
  alike as null, and a column it does not name is null. The creation time of a header or
  history row is not sent: the backend fills it, here with the next readings of the clock.
\<close>

definition newOrderRow :: "Env \<Rightarrow> NewOrderData \<Rightarrow> OrderRow" where
  "newOrderRow env orderData =
     \<lparr> or_id = generateUniqueId ''PED-'' env 0,
       client_name = n_clientName orderData,
       client_address = Some (n_clientAddress orderData),
       or_status = en_armado,
       payment_method = None,
       is_paid = False,
       armed_by = None,
       controlled_by = None,
       awaiting_payment_verification = None,
       initial_notes = present (n_initialNotes orderData),
       created_at = clock env 2,
       currently_working_by = None,
       working_start_time = None,
       total_amount = present (n_totalAmount orderData) \<rparr>"

definition productsToInsert :: "Env \<Rightarrow> NewOrderData \<Rightarrow> ProductRow list" where
  "productsToInsert env orderData =
     map (\<lambda>(i, p).
            \<lparr> pr_id = strOr (p_id p)
                        (generateUniqueId ''PROD-'' env
                           (2 + length (n_products orderData) + i)),
              pr_order_id = generateUniqueId ''PED-'' env 0,
              pr_code = p_code p,
              pr_name = p_name p,
              pr_quantity = p_quantity p,
              original_quantity = Some (p_quantity p),
              is_checked = Some False,
              unit_price = unitPrice p,
              pr_subtotal = subtotal p \<rparr>)
       (enumerate 0 (n_products orderData))"

definition newHistoryRow :: "Env \<Rightarrow> NewOrderData \<Rightarrow> User \<Rightarrow> HistoryRow" where
  "newHistoryRow env orderData currentUser =
     \<lparr> hr_id = generateUniqueId ''HIST-'' env (2 + 2 * length (n_products orderData)),
       hr_order_id = generateUniqueId ''PED-'' env 0,
       hr_action = createdAction,
       user_name = u_name currentUser,
       hr_notes = present (n_initialNotes orderData),
       hr_created_at = clock env 3 \<rparr>"

text \<open>The catch branch (lines 368-371): the order with the new id leaves the cache.\<close>

definition createRollback :: "string \<Rightarrow> State \<Rightarrow> bool \<times> State" where
  "createRollback orderId st =
     (False, st\<lparr>ordersCache := filter (\<lambda>r. o_id r \<noteq> orderId) (ordersCache st)\<rparr>)"

definition createOrder :: "bool \<Rightarrow> Env \<Rightarrow> NewOrderData \<Rightarrow> User \<Rightarrow> State \<Rightarrow> bool \<times> State" where
  "createOrder useLocalStorage env orderData currentUser st =
     (let orderId = generateUniqueId ''PED-'' env 0;
          optimistic = optimisticOrder env orderData currentUser;
          st1 = st\<lparr>ordersCache := optimistic # ordersCache st\<rparr>
      in if useLocalStorage then
           (if fails env LocalRead \<or> fails env LocalWrite then createRollback orderId st1
            else
              (let st2 = st1\<lparr>localOrders := Some (optimistic # savedList st1)\<rparr>
               in if fails env Broadcast then createRollback orderId st2 else (True, st2)))
         else if fails env InsertOrder then createRollback orderId st1
         else
           (let st2 = st1\<lparr>db := (db st1)\<lparr>t_orders :=
                        t_orders (db st1) @ [newOrderRow env orderData]\<rparr>\<rparr>
            in if fails env InsertProducts then createRollback orderId st2
               else
                 (let st3 = st2\<lparr>db := (db st2)\<lparr>t_products :=
                              t_products (db st2) @ productsToInsert env orderData\<rparr>\<rparr>
                  in if fails env InsertHistory then createRollback orderId st3
                     else
                       (let st4 = st3\<lparr>db := (db st3)\<lparr>t_order_history :=
                                    t_order_history (db st3)
                                      @ [newHistoryRow env orderData currentUser]\<rparr>\<rparr>
                        in if fails env Broadcast then createRollback orderId st4
                           else (True, st4)))))"

section \<open>Working flags (lines 378-428)\<close>

definition claimOrder :: "string \<Rightarrow> int \<Rightarrow> Order \<Rightarrow> Order" where
  "claimOrder userName t r = r\<lparr>currentlyWorkingBy := Val userName, workingStartTime := Val t\<rparr>"

definition releaseOrder :: "Order \<Rightarrow> Order" where
  "releaseOrder r = r\<lparr>currentlyWorkingBy := Undefined, workingStartTime := Undefined\<rparr>"

text \<open>\<open>ordersCache.map((o) => (o.id === orderId ? f(o) : o))\<close>.\<close>

definition mapWhereId :: "string \<Rightarrow> (Order \<Rightarrow> Order) \<Rightarrow> Order list \<Rightarrow> Order list" where
  "mapWhereId orderId f orders = map (\<lambda>r. if o_id r = orderId then f r else r) orders"

definition setWorkingOnOrder :: "bool \<Rightarrow> Env \<Rightarrow> string \<Rightarrow> string \<Rightarrow> string \<Rightarrow> State \<Rightarrow> bool \<times> State" where
  "setWorkingOnOrder useLocalStorage env orderId userName userRole st =
     (if userRole \<noteq> ''armador'' then (True, st)
      else
        (let st1 = st\<lparr>ordersCache :=
                     mapWhereId orderId (claimOrder userName (clock env 0)) (ordersCache st)\<rparr>;
             rollback = (\<lambda>s. (False, s\<lparr>ordersCache :=
                                 mapWhereId orderId releaseOrder (ordersCache s)\<rparr>))
         in if useLocalStorage then
              (if fails env LocalRead then rollback st1
               else if list_ex (\<lambda>r. o_id r = orderId) (savedList st1) then
                 (if fails env LocalWrite then rollback st1
                  else (True, st1\<lparr>localOrders :=
                          Some (updateFirst (\<lambda>r. o_id r = orderId)
                                  (claimOrder userName (clock env 1)) (savedList st1))\<rparr>))
               else (True, st1))
            else if fails env UpdateWorking then rollback st1
            else
              (True, st1\<lparr>db := (db st1)\<lparr>t_orders :=
                 map (\<lambda>r. if or_id r = orderId
                           then r\<lparr>currently_working_by := Some userName,
                                  working_start_time := Some (clock env 1)\<rparr>
                           else r)
                   (t_orders (db st1))\<rparr>\<rparr>)))"

definition clearWorkingOnOrder :: "bool \<Rightarrow> Env \<Rightarrow> string \<Rightarrow> string option \<Rightarrow> string option \<Rightarrow> State \<Rightarrow> bool \<times> State" where
  "clearWorkingOnOrder useLocalStorage env orderId userName userRole st =
     (if truthyStr userRole \<and> userRole \<noteq> Some ''armador'' then (True, st)
      else
        (let st1 = st\<lparr>ordersCache := mapWhereId orderId releaseOrder (ordersCache st)\<rparr>
         in if useLocalStorage then
              (if fails env LocalRead then (False, st1)
               else case find (\<lambda>r. o_id r = orderId) (savedList st1) of
                 None \<Rightarrow> (True, st1)
               | Some stored \<Rightarrow>
                   if truthyStr userName \<and> present (currentlyWorkingBy stored) \<noteq> userName
                   then (True, st1)
                   else if fails env LocalWrite then (False, st1)
                   else (True, st1\<lparr>localOrders :=
                           Some (updateFirst (\<lambda>r. o_id r = orderId) releaseOrder
                                   (savedList st1))\<rparr>))
            else if fails env UpdateWorking then (False, st1)
            else
              (True, st1\<lparr>db := (db st1)\<lparr>t_orders :=
                 map (\<lambda>r. if or_id r = orderId
                           then r\<lparr>currently_working_by := None, working_start_time := None\<rparr>
                           else r)
                   (t_orders (db st1))\<rparr>\<rparr>)))"

section \<open>\<open>updateOrder\<close> (lines 431-557)\<close>

text \<open>
  The payload of an update leaves the request as JSON: a key whose value is \<open>undefined\<close> is
  not serialized, so that column keeps the value it has, and a \<open>null\<close> is written as null.
  \<open>order.workingStartTime?.toISOString()\<close> is \<open>undefined\<close> for \<open>null\<close> as for \<open>undefined\<close>.
\<close>

definition sent :: "'a js \<Rightarrow> 'a option \<Rightarrow> 'a option" where
  "sent v old = (case v of Undefined \<Rightarrow> old | Null \<Rightarrow> None | Val x \<Rightarrow> Some x)"

definition updateOrderRow :: "Order \<Rightarrow> OrderRow \<Rightarrow> OrderRow" where
  "updateOrderRow order r =
     r\<lparr> client_name := clientName order,
        client_address := Some (clientAddress order),
        or_status := status order,
        payment_method := sent (paymentMethod order) (payment_method r),
        is_paid := isPaid order,
        armed_by := sent (armedBy order) (armed_by r),
        controlled_by := sent (controlledBy order) (controlled_by r),
        awaiting_payment_verification :=
          sent (awaitingPaymentVerification order) (awaiting_payment_verification r),
        initial_notes := sent (initialNotes order) (initial_notes r),
        currently_working_by := sent (currentlyWorkingBy order) (currently_working_by r),
        working_start_time :=
          sent (orUndefined (present (workingStartTime order))) (working_start_time r),
        total_amount := sent (totalAmount order) (total_amount r) \<rparr>"

definition productRows :: "Env \<Rightarrow> Order \<Rightarrow> ProductRow list" where
  "productRows env order =
     map (\<lambda>(i, p).
            \<lparr> pr_id = strOr (p_id p) (generateUniqueId ''PROD-'' env i),
              pr_order_id = o_id order,
              pr_code = p_code p,
              pr_name = p_name p,
              pr_quantity = p_quantity p,
              original_quantity = originalQuantity p,
              is_checked = isChecked p,
              unit_price = unitPrice p,
              pr_subtotal = subtotal p \<rparr>)
       (enumerate 0 (products order))"

definition missingRows :: "Order \<Rightarrow> MissingRow list" where
  "missingRows order =
     map (\<lambda>m. \<lparr> mr_order_id = o_id order,
                 mr_product_id = m_productId m,
                 mr_product_name = m_productName m,
                 mr_code = m_code m,
                 mr_quantity = m_quantity m \<rparr>)
       (missingProducts order)"

definition returnedRows :: "Order \<Rightarrow> ReturnedRow list" where
  "returnedRows order =
     map (\<lambda>x. \<lparr> rr_order_id = o_id order,
                 rr_product_id = r_productId x,
                 rr_product_name = r_productName x,
                 rr_code = r_code x,
                 rr_quantity = r_quantity x,
                 rr_reason = reason x \<rparr>)
       (returnedProducts order)"

text \<open>
  The history entries to append (lines 522-533): those whose id the backend does not list
  for this order; a failed select yields no data, so every entry counts as new.
\<close>

definition existingIds :: "Env \<Rightarrow> Order \<Rightarrow> DB \<Rightarrow> string list" where
  "existingIds env order d =
     (if fails env SelectHistory then []
      else map hr_id (filter (\<lambda>h. hr_order_id h = o_id order) (t_order_history d)))"

definition historyRows :: "Env \<Rightarrow> Order \<Rightarrow> DB \<Rightarrow> HistoryRow list" where
  "historyRows env order d =
     map (\<lambda>(i, h).
            \<lparr> hr_id = strOr (h_id h)
                        (generateUniqueId ''HIST-'' env (length (products order) + i)),
              hr_order_id = o_id order,
              hr_action = action h,
              user_name = h_user h,
              hr_notes = h_notes h,
              hr_created_at = timestamp h \<rparr>)
       (enumerate 0 (filter (\<lambda>h. h_id h \<notin> set (existingIds env order d)) (history order)))"

text \<open>
  Whether the call broadcasts (lines 445-455 and 538-548): a current user is given and the
  last history entry of the order is theirs.
\<close>

definition broadcastsUpdate :: "Order \<Rightarrow> User option \<Rightarrow> bool" where
  "broadcastsUpdate order currentUser =
     (case currentUser of
        None \<Rightarrow> False
      | Some u \<Rightarrow> history order \<noteq> [] \<and> h_user (last (history order)) = u_name u)"

text \<open>
  The remote branch, one step per awaited call. The result of a delete and of the select
  of history ids is not inspected by the source, so a failure there does not stop the call.
\<close>

definition updHeader :: "Order \<Rightarrow> DB \<Rightarrow> DB" where
  "updHeader order d =
     d\<lparr>t_orders := map (\<lambda>r. if or_id r = o_id order then updateOrderRow order r else r)
                      (t_orders d)\<rparr>"

definition delProducts :: "Env \<Rightarrow> Order \<Rightarrow> DB \<Rightarrow> DB" where
  "delProducts env order d =
     (if fails env DeleteProducts then d
      else d\<lparr>t_products := filter (\<lambda>p. pr_order_id p \<noteq> o_id order) (t_products d)\<rparr>)"

definition delMissing :: "Env \<Rightarrow> Order \<Rightarrow> DB \<Rightarrow> DB" where
  "delMissing env order d =
     (if fails env DeleteMissing then d
      else d\<lparr>t_missing_products :=
               filter (\<lambda>m. mr_order_id m \<noteq> o_id order) (t_missing_products d)\<rparr>)"

definition delReturned :: "Env \<Rightarrow> Order \<Rightarrow> DB \<Rightarrow> DB" where
  "delReturned env order d =
     (if fails env DeleteReturned then d
      else d\<lparr>t_returned_products :=
               filter (\<lambda>x. rr_order_id x \<noteq> o_id order) (t_returned_products d)\<rparr>)"

definition updateRemote :: "Env \<Rightarrow> Order \<Rightarrow> User option \<Rightarrow> DB \<Rightarrow> bool \<times> DB" where
  "updateRemote env order currentUser d0 =
     (if fails env UpdateOrder then (False, d0)
      else
        (let d1 = delProducts env order (updHeader order d0) in
         if products order \<noteq> [] \<and> fails env InsertProducts then (False, d1)
         else
           (let d2 = delMissing env order
                       (d1\<lparr>t_products := t_products d1 @ productRows env order\<rparr>) in
            if missingProducts order \<noteq> [] \<and> fails env InsertMissing then (False, d2)
            else
              (let d3 = delReturned env order
                          (d2\<lparr>t_missing_products :=
                                t_missing_products d2 @ missingRows order\<rparr>) in
               if returnedProducts order \<noteq> [] \<and> fails env InsertReturned then (False, d3)
               else
                 (let d4 = d3\<lparr>t_returned_products :=
                                t_returned_products d3 @ returnedRows order\<rparr>;
                      rows = historyRows env order d4 in
                  if rows \<noteq> [] \<and> fails env InsertHistory then (False, d4)
                  else
                    (let d5 = d4\<lparr>t_order_history := t_order_history d4 @ rows\<rparr> in
                     if broadcastsUpdate order currentUser \<and> fails env Broadcast
                     then (False, d5)
                     else (True, d5)))))))"

definition updateOrder :: "bool \<Rightarrow> Env \<Rightarrow> Order \<Rightarrow> User option \<Rightarrow> State \<Rightarrow> bool \<times> State" where
  "updateOrder useLocalStorage env order currentUser st =
     (let st1 = st\<lparr>ordersCache :=
                  updateFirst (\<lambda>r. o_id r = o_id order) (\<lambda>_. order) (ordersCache st)\<rparr>
      in if useLocalStorage then
           (if fails env LocalRead then (False, st1)
            else
              (let found = list_ex (\<lambda>r. o_id r = o_id order) (savedList st1) in
               if found \<and> fails env LocalWrite then (False, st1)
               else
                 (let st2 = (if found
                             then st1\<lparr>localOrders :=
                                    Some (updateFirst (\<lambda>r. o_id r = o_id order) (\<lambda>_. order)
                                            (savedList st1))\<rparr>
                             else st1)
                  in if broadcastsUpdate order currentUser \<and> fails env Broadcast
                     then (False, st2)
                     else (True, st2))))
         else
           (case updateRemote env order currentUser (db st1) of
              (ok, d) \<Rightarrow> (ok, st1\<lparr>db := d\<rparr>)))"

section \<open>\<open>deleteOrder\<close> (lines 560-582)\<close>



section \<open>Change notifications of the page (page component, lines 219-244)\<close>

text \<open>
  The effect that runs on every new value of \<open>orders\<close>: it compares it with
  \<open>previousOrders\<close>, emits the notifications, and stores \<open>orders\<close> as the next
  \<open>previousOrders\<close>. Accented letters of the messages are their UTF-8 bytes.
\<close>

record Notification =
  kind :: string
  title :: string
  message :: string

definition DEFAULT_USERS :: "User list" where
  "DEFAULT_USERS =
     [ \<lparr> u_id = ''riki-1'', u_name = ''Riki'', u_role = vale \<rparr>,
       \<lparr> u_id = ''camilo-1'', u_name = ''Camilo'', u_role = armador \<rparr>,
       \<lparr> u_id = ''jesus-1'', u_name = ''Jesus'', u_role = armador \<rparr>,
       \<lparr> u_id = ''eze-1'', u_name = ''Eze'', u_role = armador \<rparr>,
       \<lparr> u_id = ''chino-1'', u_name = ''chino'', u_role = armador \<rparr> ]"

definition statusLabel :: "OrderStatus \<Rightarrow> string" where
  "statusLabel s =
     (case s of
        en_armado \<Rightarrow> ''En Armado''
      | armado \<Rightarrow> ''Armado''
      | armado_controlado \<Rightarrow> ''Armado Controlado''
      | facturado \<Rightarrow> ''Facturado''
      | factura_controlada \<Rightarrow> ''Factura Controlada''
      | en_transito \<Rightarrow> ''En Tr'' @ [CHR 0xC3, CHR 0xA1] @ ''nsito''
      | entregado \<Rightarrow> ''Entregado''
      | pagado \<Rightarrow> ''Pagado'')"

text \<open>\<open>currentUser?.name\<close>.\<close>

definition currentName :: "User option \<Rightarrow> string option" where
  "currentName currentUser = map_option u_name currentUser"

definition newOrderNotification :: "Order \<Rightarrow> Notification" where
  "newOrderNotification r =
     \<lparr> kind = ''info'', title = ''Nuevo Pedido'',
       message = ''Se cre'' @ [CHR 0xC3, CHR 0xB3] @ '' el pedido para '' @ clientName r \<rparr>"

definition newOrderEvents :: "User option \<Rightarrow> Order list \<Rightarrow> Order list \<Rightarrow> Notification list" where
  "newOrderEvents currentUser previousOrders orders =
     concat (map (\<lambda>r. if currentName currentUser \<noteq> Some ''Vale''
                       then [newOrderNotification r] else [])
               (filter (\<lambda>r. \<not> list_ex (\<lambda>p. o_id p = o_id r) previousOrders) orders))"

definition changeEvents :: "User option \<Rightarrow> Order list \<Rightarrow> Order \<Rightarrow> Notification list" where
  "changeEvents currentUser previousOrders r =
     (case find (\<lambda>p. o_id p = o_id r) previousOrders of
        None \<Rightarrow> []
      | Some prev \<Rightarrow>
          (if status prev \<noteq> status r \<and> history r \<noteq> []
              \<and> Some (h_user (last (history r))) \<noteq> currentName currentUser
           then [\<lparr> kind = ''success'', title = ''Estado Actualizado'',
                   message = clientName r @ '' - '' @ statusLabel (status r) @ '' por ''
                             @ h_user (last (history r)) \<rparr>]
           else [])
          @ (case present (currentlyWorkingBy r) of
               None \<Rightarrow> []
             | Some worker \<Rightarrow>
                 if \<not> truthyStr (present (currentlyWorkingBy prev)) \<and> worker \<noteq> []
                    \<and> Some worker \<noteq> currentName currentUser
                 then [\<lparr> kind = ''info'', title = ''Trabajando en Pedido'',
                         message = worker @ '' est'' @ [CHR 0xC3, CHR 0xA1]
                                   @ '' trabajando en '' @ clientName r \<rparr>]
                 else []))"

definition notifyChanges :: "User option \<Rightarrow> Order list \<Rightarrow> Order list \<Rightarrow> Notification list \<times> Order list" where
  "notifyChanges currentUser previousOrders orders =
     ((if previousOrders \<noteq> [] \<and> orders \<noteq> []
       then newOrderEvents currentUser previousOrders orders
            @ concat (map (changeEvents currentUser previousOrders) orders)
       else []),
      orders)"

section \<open>Sample values\<close>

definition sampleProduct :: Product where
  "sampleProduct =
     \<lparr> p_id = ''PROD-1'', p_code = Some ''A1'', p_name = ''Caja'', p_quantity = 10,
       originalQuantity = Some 10, isChecked = Some False, unitPrice = Some 5,
       subtotal = Some 50 \<rparr>"

definition sampleHistory :: HistoryEntry where
  "sampleHistory =
     \<lparr> h_id = ''HIST-1'', action = ''Presupuesto creado y pedido listo para armar'',
       h_user = ''Riki'', timestamp = 1000, h_notes = None \<rparr>"

text \<open>
  The sample order as a fetch from the backend delivers it (the copied optional fields are
  \<open>null\<close>), and as local mode holds it (they are \<open>undefined\<close>).
\<close>

definition sampleOrder :: Order where
  "sampleOrder =
     \<lparr> o_id = ''PED-1'', clientName = ''Acme'', clientAddress = ''Calle 1'',
       products = [sampleProduct], status = en_armado, missingProducts = [],
       returnedProducts = [], paymentMethod = Null, isPaid = False, createdAt = 1000,
       history = [sampleHistory], armedBy = Null, controlledBy = Null,
       awaitingPaymentVerification = Null, initialNotes = Null, currentlyWorkingBy = Null,
       workingStartTime = Undefined, totalAmount = Val 50 \<rparr>"

definition localOrder :: Order where
  "localOrder =
     sampleOrder\<lparr> paymentMethod := Undefined, armedBy := Undefined, controlledBy := Undefined,
                  awaitingPaymentVerification := Undefined, initialNotes := Undefined,
                  currentlyWorkingBy := Undefined \<rparr>"

definition sampleProductRow :: ProductRow where
  "sampleProductRow =
     \<lparr> pr_id = ''PROD-1'', pr_order_id = ''PED-1'', pr_code = Some ''A1'', pr_name = ''Caja'',
       pr_quantity = 10, original_quantity = Some 10, is_checked = Some False,
       unit_price = Some 5, pr_subtotal = Some 50 \<rparr>"

definition sampleRow :: OrderRow where
  "sampleRow =
     \<lparr> or_id = ''PED-1'', client_name = ''Acme'', client_address = Some ''Calle 1'',
       or_status = en_armado, payment_method = None, is_paid = False, armed_by = None,
       controlled_by = None, awaiting_payment_verification = None, initial_notes = None,
       created_at = 1000, currently_working_by = None, working_start_time = None,
       total_amount = Some 50 \<rparr>"

definition riki :: User where
  "riki = \<lparr> u_id = ''riki-1'', u_name = ''Riki'', u_role = vale \<rparr>"

definition secondOrder :: Order where
  "secondOrder = sampleOrder\<lparr>o_id := ''PED-2'', clientName := ''Beta''\<rparr>"

definition emptyDB :: DB where
  "emptyDB = \<lparr> t_orders = [], t_products = [], t_missing_products = [],
      t_returned_products = [], t_order_history = [] \<rparr>"

definition emptyState :: State where
  "emptyState = \<lparr> ordersCache = [], lastFetchTime = 0, localOrders = None, db = emptyDB \<rparr>"

definition okEnv :: Env where
  "okEnv = \<lparr> clock = (\<lambda>k. 2000 + int k), rnd = (\<lambda>k. ''2000-r'' @ replicate k CHR ''x''),
      fails = (\<lambda>a. False) \<rparr>"

definition acmeItem :: Product where
  "acmeItem = sampleProduct\<lparr>p_id := [], originalQuantity := None, isChecked := None\<rparr>"

definition acmeData :: NewOrderData where
  "acmeData = \<lparr> n_clientName = ''Acme'', n_clientAddress = ''Calle 1'',
      n_products = [acmeItem],
      n_paymentMethod = Undefined, n_armedBy = Undefined, n_controlledBy = Undefined,
      n_awaitingPaymentVerification = Undefined, n_initialNotes = Undefined,
      n_totalAmount = Val 50 \<rparr>"

definition sampleHistoryRow :: HistoryRow where
  "sampleHistoryRow =
     \<lparr> hr_id = ''HIST-1'', hr_order_id = ''PED-1'',
       hr_action = ''Presupuesto creado y pedido listo para armar'', user_name = ''Riki'',
       hr_notes = None, hr_created_at = 1000 \<rparr>"

definition sampleDB :: DB where
  "sampleDB = \<lparr> t_orders = [sampleRow], t_products = [sampleProductRow],
      t_missing_products = [], t_returned_products = [], t_order_history = [sampleHistoryRow] \<rparr>"

text \<open>
  A state holding the sample order in each store: the cache and the backend as remote mode
  uses them, the local list as local mode does.
\<close>

definition workState :: State where
  "workState = \<lparr> ordersCache = [sampleOrder], lastFetchTime = 0,
      localOrders = Some [localOrder], db = sampleDB \<rparr>"

text \<open>
  The same, after another client has claimed the order at the backend: the cache still
  holds the snapshot fetched before the claim.
\<close>

definition claimedRow :: OrderRow where
  "claimedRow = sampleRow\<lparr>currently_working_by := Some ''Camilo'',
                           working_start_time := Some 1500\<rparr>"

definition claimedState :: State where
  "claimedState = workState\<lparr>db := sampleDB\<lparr>t_orders := [claimedRow]\<rparr>\<rparr>"

text \<open>The cached snapshot with a corrected address, as the coordinator would send it.\<close>

definition editedOrder :: Order where
  "editedOrder = sampleOrder\<lparr>clientAddress := ''Calle 2''\<rparr>"

text \<open>
  The state after the coordinator has sent it with success and the orders have been
  fetched again.
\<close>

definition unpairedState :: State where
  "unpairedState =
     snd (fetchOrders False okEnv True False
            (snd (updateOrder False okEnv editedOrder (Some riki) claimedState)))"

text \<open>The environment in which exactly the access \<open>a\<close> fails.\<close>

definition failEnv :: "Access \<Rightarrow> Env" where
  "failEnv a = okEnv\<lparr>fails := (\<lambda>x. x = a)\<rparr>"

section \<open>Predicates of the claims\<close>

text \<open>
  The pairing of the two working fields, on an order, on a header row, and on the three
  stores (cache, local list, backend). A field is set when it holds a value, and unset when
  it is \<open>undefined\<close> or \<open>null\<close>.
\<close>

definition flagsPaired :: "Order \<Rightarrow> bool" where
  "flagsPaired r =
     ((present (currentlyWorkingBy r) \<noteq> None) = (present (workingStartTime r) \<noteq> None))"

definition rowFlagsPaired :: "OrderRow \<Rightarrow> bool" where
  "rowFlagsPaired r = ((currently_working_by r \<noteq> None) = (working_start_time r \<noteq> None))"

definition storesPaired :: "State \<Rightarrow> bool" where
  "storesPaired st =
     (list_all flagsPaired (ordersCache st) \<and> list_all flagsPaired (savedList st)
      \<and> list_all rowFlagsPaired (t_orders (db st)))"



text \<open>
  An order, a header row, every store: the order with this id has neither working field
  set.
\<close>

definition unclaimed :: "string \<Rightarrow> Order \<Rightarrow> bool" where
  "unclaimed orderId r =
     (o_id r = orderId \<longrightarrow>
        present (currentlyWorkingBy r) = None \<and> present (workingStartTime r) = None)"

definition rowUnclaimed :: "string \<Rightarrow> OrderRow \<Rightarrow> bool" where
  "rowUnclaimed orderId r =
     (or_id r = orderId \<longrightarrow> currently_working_by r = None \<and> working_start_time r = None)"

definition unclaimedEverywhere :: "string \<Rightarrow> State \<Rightarrow> bool" where
  "unclaimedEverywhere orderId st =
     (list_all (unclaimed orderId) (ordersCache st)
      \<and> list_all (unclaimed orderId) (savedList st)
      \<and> list_all (rowUnclaimed orderId) (t_orders (db st)))"

text \<open>
  Two orders that agree in every field, an unset working field of the one being unset in
  the other (\<open>undefined\<close> or \<open>null\<close>).
\<close>

definition sameOrder :: "Order \<Rightarrow> Order \<Rightarrow> bool" where
  "sameOrder a b =
     (a\<lparr>currentlyWorkingBy := Undefined, workingStartTime := Undefined\<rparr>
        = b\<lparr>currentlyWorkingBy := Undefined, workingStartTime := Undefined\<rparr>
      \<and> present (currentlyWorkingBy a) = present (currentlyWorkingBy b)
      \<and> present (workingStartTime a) = present (workingStartTime b))"

text \<open>
  A persistence failure of \<open>clearWorkingOnOrder\<close>: the call gets past its role test and an
  access it makes fails. In remote mode it makes the update. In local mode it reads the
  list, and it writes the list when the list holds the order and either no user name is
  given or the name is the stored claimant's.
\<close>

definition clearFailure :: "bool \<Rightarrow> Env \<Rightarrow> string \<Rightarrow> string option \<Rightarrow> string option \<Rightarrow> State \<Rightarrow> bool" where
  "clearFailure useLocalStorage env orderId userName userRole st =
     (\<not> (truthyStr userRole \<and> userRole \<noteq> Some ''armador'')
      \<and> (if useLocalStorage
          then fails env LocalRead
               \<or> (case find (\<lambda>r. o_id r = orderId) (savedList st) of
                     None \<Rightarrow> False
                   | Some stored \<Rightarrow>
                       \<not> (truthyStr userName \<and> present (currentlyWorkingBy stored) \<noteq> userName)
                       \<and> fails env LocalWrite)
          else fails env UpdateWorking))"

text \<open>
  For the fetch: the orders a query brings, the paid orders the cache holds, and the
  condition under which a remote fetch asks the backend and gets an answer (it is forced, or
  the cache is empty or at least \<open>CACHE_MS\<close> old; and the query does not fail).
\<close>

definition freshOrders :: "bool \<Rightarrow> State \<Rightarrow> Order list" where
  "freshOrders prioritizeActive st = map mapOrderRow (selectOrders prioritizeActive (db st))"

definition cachedPaid :: "State \<Rightarrow> Order list" where
  "cachedPaid st = filter (\<lambda>r. status r = pagado) (ordersCache st)"

definition reachesBackend :: "Env \<Rightarrow> bool \<Rightarrow> State \<Rightarrow> bool" where
  "reachesBackend env forceRefresh st =
     ((forceRefresh \<or> ordersCache st = [] \<or> CACHE_MS \<le> clock env 0 - lastFetchTime st)
      \<and> \<not> fails env SelectOrders)"

text \<open>
  The state after an update of the sample order to \<open>pagado\<close> whose first backend call
  failed: the cache says \<open>pagado\<close>, the backend still \<open>en_armado\<close>.
\<close>

definition staleState :: State where
  "staleState =
     snd (updateOrder False (failEnv UpdateOrder) (sampleOrder\<lparr>status := pagado\<rparr>) None
            workState)"

text \<open>A cache with one open and one paid order, over the sample backend.\<close>

definition paidCacheState :: State where
  "paidCacheState = workState\<lparr>ordersCache := [sampleOrder, secondOrder\<lparr>status := pagado\<rparr>]\<rparr>"

text \<open>
  For the round trip: a product as it comes back from the backend (a zero in one of the
  three optional amounts is read as absent); an optional header field that comes back as it
  was sent unless it was \<open>undefined\<close>; the backend after every step of a remote update has
  gone through; the history ids the backend holds for an order.
\<close>

definition zeroAsUndefined :: "Product \<Rightarrow> Product" where
  "zeroAsUndefined p =
     p\<lparr> originalQuantity := parseIfTruthy (originalQuantity p),
        unitPrice := parseIfTruthy (unitPrice p),
        subtotal := parseIfTruthy (subtotal p) \<rparr>"

definition keptIfSent :: "'a js \<Rightarrow> 'a js \<Rightarrow> bool" where
  "keptIfSent v fetched = (v \<noteq> Undefined \<longrightarrow> fetched = v)"

definition remoteWritten :: "Env \<Rightarrow> Order \<Rightarrow> DB \<Rightarrow> DB" where
  "remoteWritten env order d0 =
     (let d1 = delProducts env order (updHeader order d0);
          d2 = delMissing env order (d1\<lparr>t_products := t_products d1 @ productRows env order\<rparr>);
          d3 = delReturned env order
                 (d2\<lparr>t_missing_products := t_missing_products d2 @ missingRows order\<rparr>);
          d4 = d3\<lparr>t_returned_products := t_returned_products d3 @ returnedRows order\<rparr>
      in d4\<lparr>t_order_history := t_order_history d4 @ historyRows env order d4\<rparr>)"

definition storedHistoryIds :: "string \<Rightarrow> DB \<Rightarrow> string list" where
  "storedHistoryIds orderId d =
     map hr_id (filter (\<lambda>h. hr_order_id h = orderId) (t_order_history d))"

text \<open>The sample order with a total of zero, and the sample order after picking.\<close>

definition zeroOrder :: Order where
  "zeroOrder = sampleOrder\<lparr>totalAmount := Val 0\<rparr>"

definition pickedOrder :: Order where
  "pickedOrder = sampleOrder\<lparr>status := armado, armedBy := Val ''Camilo'',
                              totalAmount := Val 80\<rparr>"

section \<open>Facts about optional fields\<close>

lemma present_simps:
  "present Undefined = None" "present Null = None" "present (Val v) = Some v"
  by (simp_all add: present_def)

lemma ofColumn_simps: "ofColumn None = Null" "ofColumn (Some v) = Val v"
  by (simp_all add: ofColumn_def)

lemma orUndefined_simps: "orUndefined None = Undefined" "orUndefined (Some v) = Val v"
  by (simp_all add: orUndefined_def)

lemma sent_simps:
  "sent Undefined old = old" "sent Null old = None" "sent (Val v) old = Some v"
  by (simp_all add: sent_def)

section \<open>The sample state\<close>

text \<open>
  The backend of the sample state holds the sample order, and a fetch delivers it as the
  cache of the sample state has it.
\<close>

lemma sample_fetch: "fst (fetchOrders False okEnv True False workState) = [sampleOrder]"
  by code_simp

section \<open>Claim C1: the three buckets\<close>

text \<open>
  C1, as stated, fails: an order with status \<open>entregado\<close> and \<open>isPaid = true\<close> is in none of
  the three lists the page computes.
\<close>

theorem C1_delivered_paid_in_no_bucket:
  "sampleOrder\<lparr>status := entregado, isPaid := True\<rparr>
      \<notin> set (activeOrders [sampleOrder\<lparr>status := entregado, isPaid := True\<rparr>])
   \<and> sampleOrder\<lparr>status := entregado, isPaid := True\<rparr>
      \<notin> set (pendingPaymentOrders [sampleOrder\<lparr>status := entregado, isPaid := True\<rparr>])
   \<and> sampleOrder\<lparr>status := entregado, isPaid := True\<rparr>
      \<notin> set (completedOrders [sampleOrder\<lparr>status := entregado, isPaid := True\<rparr>])"
  by (simp add: activeOrders_def pendingPaymentOrders_def completedOrders_def)

text \<open>
  C1, amended: for every order of the list, no two of the three buckets hold it, and some
  bucket holds it exactly when it is not both \<open>entregado\<close> and paid; hence every order other
  than a delivered and paid one is in exactly one bucket.
\<close>

theorem C1_buckets_exclusive_and_exhaustive_but_delivered_paid:
  assumes "r \<in> set orders"
  shows "\<not> (r \<in> set (activeOrders orders) \<and> r \<in> set (pendingPaymentOrders orders))
       \<and> \<not> (r \<in> set (activeOrders orders) \<and> r \<in> set (completedOrders orders))
       \<and> \<not> (r \<in> set (pendingPaymentOrders orders) \<and> r \<in> set (completedOrders orders))
       \<and> ((r \<in> set (activeOrders orders) \<or> r \<in> set (pendingPaymentOrders orders)
            \<or> r \<in> set (completedOrders orders))
           = (\<not> (status r = entregado \<and> isPaid r)))"
  using assms
  by (auto simp: activeOrders_def pendingPaymentOrders_def completedOrders_def)

theorem C1_buckets_witness:
  "sampleOrder \<in> set [sampleOrder]
   \<and> sampleOrder \<in> set (activeOrders [sampleOrder])
   \<and> sampleOrder \<notin> set (pendingPaymentOrders [sampleOrder])
   \<and> sampleOrder \<notin> set (completedOrders [sampleOrder])"
proof -
  have m: "sampleOrder \<in> set [sampleOrder]"
    by simp
  have s: "status sampleOrder = en_armado"
    by (simp add: sampleOrder_def)
  from C1_buckets_exclusive_and_exhaustive_but_delivered_paid [OF m] s
  show ?thesis
    by (simp add: pendingPaymentOrders_def completedOrders_def)
qed

section \<open>Claim C10: a stored zero is read back as absent\<close>

text \<open>
  C10: for every backend row, \<open>mapOrderRow\<close> maps a stored \<open>total_amount\<close> of exactly 0 to
  the absent value, and likewise \<open>original_quantity\<close>, \<open>unit_price\<close> and \<open>subtotal\<close> of each
  embedded product row; the resulting order is the one obtained from the row with those
  columns null, so a stored zero cannot be told from an unset amount after a fetch.
\<close>

theorem C10_zero_amounts_map_to_undefined:
  "totalAmount (mapOrderRow (d\<lparr>row := (row d)\<lparr>total_amount := Some 0\<rparr>\<rparr>)) = Undefined
   \<and> mapOrderRow (d\<lparr>row := (row d)\<lparr>total_amount := Some 0\<rparr>\<rparr>)
       = mapOrderRow (d\<lparr>row := (row d)\<lparr>total_amount := None\<rparr>\<rparr>)
   \<and> originalQuantity (mapProductRow (p\<lparr>original_quantity := Some 0\<rparr>)) = None
   \<and> unitPrice (mapProductRow (p\<lparr>unit_price := Some 0\<rparr>)) = None
   \<and> subtotal (mapProductRow (p\<lparr>pr_subtotal := Some 0\<rparr>)) = None
   \<and> mapProductRow (p\<lparr>original_quantity := Some 0, unit_price := Some 0, pr_subtotal := Some 0\<rparr>)
       = mapProductRow (p\<lparr>original_quantity := None, unit_price := None, pr_subtotal := None\<rparr>)
   \<and> products (mapOrderRow (d\<lparr>d_products := Some [p\<lparr>original_quantity := Some 0\<rparr>]\<rparr>))
       = [mapProductRow (p\<lparr>original_quantity := None\<rparr>)]"
  by (simp add: mapOrderRow_def mapProductRow_def parseIfTruthy_def orEmpty_def orUndefined_def)

section \<open>Claim C6: the new-order notification\<close>

text \<open>
  The effect emits nothing while there is no earlier snapshot, whoever the user is.
\<close>

lemma notifyChanges_first_snapshot: "fst (notifyChanges currentUser [] orders) = []"
  by (simp add: notifyChanges_def)

text \<open>
  With an earlier snapshot, an order whose id is new is announced exactly when the current
  user's name is not the literal \<open>Vale\<close>: the source compares the name, not the role.
\<close>

lemma newOrderEvents_by_name:
  assumes "r \<in> set orders" and "\<not> list_ex (\<lambda>p. o_id p = o_id r) previousOrders"
  shows "(newOrderNotification r \<in> set (newOrderEvents currentUser previousOrders orders))
         = (currentName currentUser \<noteq> Some ''Vale'')"
  using assms by (auto simp: newOrderEvents_def)

text \<open>
  C6 at the failing input: the coordinator of the built-in user list, Riki (role \<open>vale\<close>),
  sees a second snapshot with one new order, and the new-order notification is emitted
  although the role is the coordinator's.
\<close>

theorem C6_new_order_event_reaches_coordinator_Riki:
  "riki \<in> set DEFAULT_USERS \<and> u_role riki = vale
   \<and> \<not> list_ex (\<lambda>p. o_id p = o_id secondOrder) [sampleOrder]
   \<and> fst (notifyChanges (Some riki) [sampleOrder] [sampleOrder, secondOrder])
       = [newOrderNotification secondOrder]"
  by (simp add: riki_def DEFAULT_USERS_def notifyChanges_def newOrderEvents_def changeEvents_def
      currentName_def secondOrder_def sampleOrder_def present_def)

section \<open>Claim C5: what \<open>createOrder\<close> creates\<close>

lemma createOrder_cache_success:
  "createOrder m env orderData currentUser st = (True, st')
   \<Longrightarrow> ordersCache st' = optimisticOrder env orderData currentUser # ordersCache st"
  by (auto simp: createOrder_def createRollback_def Let_def split: if_splits)

lemma createOrder_local_success:
  "createOrder True env orderData currentUser st = (True, st')
   \<Longrightarrow> localOrders st' = Some (optimisticOrder env orderData currentUser # savedList st)"
  by (auto simp: createOrder_def createRollback_def Let_def savedList_def split: if_splits)

lemma createOrder_remote_success:
  "createOrder False env orderData currentUser st = (True, st')
   \<Longrightarrow> t_orders (db st') = t_orders (db st) @ [newOrderRow env orderData]
     \<and> t_products (db st') = t_products (db st) @ productsToInsert env orderData
     \<and> t_order_history (db st')
         = t_order_history (db st) @ [newHistoryRow env orderData currentUser]"
  by (auto simp: createOrder_def createRollback_def Let_def split: if_splits)

text \<open>
  C5: for every input with one line item of quantity 10 and every acting user, a successful
  \<open>createOrder\<close> puts at the head of the cache an order with status \<open>en_armado\<close>, no missing
  and no returned products, \<open>isPaid\<close> false, exactly one history entry, attributed to the
  acting user, and one line item of quantity 10 whose \<open>originalQuantity\<close> is 10 and whose
  \<open>isChecked\<close> is false. What is persisted agrees: the local list gets the same order at its
  head, the backend gets one header row, one product row and one history row saying the same.
\<close>

theorem C5_createOrder_initial_order:
  assumes one: "n_products orderData = [p]" and qty: "p_quantity p = 10"
    and ok: "createOrder useLocalStorage env orderData currentUser st = (True, st')"
  shows "\<exists>order item entry.
           ordersCache st' = order # ordersCache st
         \<and> status order = en_armado
         \<and> missingProducts order = [] \<and> returnedProducts order = []
         \<and> \<not> isPaid order
         \<and> history order = [entry] \<and> h_user entry = u_name currentUser
         \<and> products order = [item]
         \<and> p_quantity item = 10 \<and> originalQuantity item = Some 10 \<and> isChecked item = Some False
         \<and> (if useLocalStorage
             then localOrders st' = Some (order # savedList st)
             else (\<exists>r pr hr.
                     t_orders (db st') = t_orders (db st) @ [r]
                   \<and> or_id r = o_id order \<and> or_status r = en_armado \<and> \<not> is_paid r
                   \<and> t_products (db st') = t_products (db st) @ [pr]
                   \<and> pr_order_id pr = o_id order \<and> pr_quantity pr = 10
                   \<and> original_quantity pr = Some 10 \<and> is_checked pr = Some False
                   \<and> t_order_history (db st') = t_order_history (db st) @ [hr]
                   \<and> hr_order_id hr = o_id order \<and> user_name hr = u_name currentUser))"
proof (cases useLocalStorage)
  case True
  with ok have l: "localOrders st'
      = Some (optimisticOrder env orderData currentUser # savedList st)"
    by (simp add: createOrder_local_success)
  from createOrder_cache_success [OF ok] l True one qty show ?thesis
    by (simp add: optimisticOrder_def)
next
  case False
  with ok have r: "t_orders (db st') = t_orders (db st) @ [newOrderRow env orderData]
     \<and> t_products (db st') = t_products (db st) @ productsToInsert env orderData
     \<and> t_order_history (db st')
         = t_order_history (db st) @ [newHistoryRow env orderData currentUser]"
    by (simp add: createOrder_remote_success)
  from createOrder_cache_success [OF ok] r False one qty show ?thesis
    by (simp add: optimisticOrder_def newOrderRow_def productsToInsert_def newHistoryRow_def)
qed

theorem C5_createOrder_witness:
  "n_products acmeData = [acmeItem] \<and> p_quantity acmeItem = 10
   \<and> fst (createOrder False okEnv acmeData riki emptyState) = True
   \<and> status (hd (ordersCache (snd (createOrder False okEnv acmeData riki emptyState))))
       = en_armado
   \<and> length (history (hd (ordersCache (snd (createOrder False okEnv acmeData riki emptyState)))))
       = 1
   \<and> map originalQuantity
       (products (hd (ordersCache (snd (createOrder False okEnv acmeData riki emptyState)))))
       = [Some 10]"
proof -
  have one: "n_products acmeData = [acmeItem]"
    by (simp add: acmeData_def)
  have qty: "p_quantity acmeItem = 10"
    by (simp add: acmeItem_def sampleProduct_def)
  have run: "fst (createOrder False okEnv acmeData riki emptyState) = True"
    by (simp add: createOrder_def okEnv_def Let_def)
  then have ok: "createOrder False okEnv acmeData riki emptyState
      = (True, snd (createOrder False okEnv acmeData riki emptyState))"
    by (metis prod.collapse)
  from C5_createOrder_initial_order [OF one qty ok] one qty run show ?thesis
    by auto
qed

section \<open>Claim C7: the two working fields go together\<close>

lemma flagsPaired_claim: "flagsPaired (claimOrder u t r)"
  by (simp add: flagsPaired_def claimOrder_def present_simps)

lemma flagsPaired_release: "flagsPaired (releaseOrder r)"
  by (simp add: flagsPaired_def releaseOrder_def present_simps)

lemma list_all_mapWhereId:
  "list_all flagsPaired xs \<Longrightarrow> (\<And>r. flagsPaired (f r)) \<Longrightarrow> list_all flagsPaired (mapWhereId i f xs)"
  by (induction xs) (auto simp: mapWhereId_def)

lemma list_all_updateFirst:
  "list_all Q xs \<Longrightarrow> (\<And>r. Q (f r)) \<Longrightarrow> list_all Q (updateFirst P f xs)"
  by (induction xs) auto

lemma list_all_rows_set:
  "list_all rowFlagsPaired rs \<Longrightarrow>
   list_all rowFlagsPaired (map (\<lambda>r. if or_id r = i
       then r\<lparr>currently_working_by := Some u, working_start_time := Some t\<rparr> else r) rs)"
  by (induction rs) (auto simp: rowFlagsPaired_def)

lemma list_all_rows_clear:
  "list_all rowFlagsPaired rs \<Longrightarrow>
   list_all rowFlagsPaired (map (\<lambda>r. if or_id r = i
       then r\<lparr>currently_working_by := None, working_start_time := None\<rparr> else r) rs)"
  by (induction rs) (auto simp: rowFlagsPaired_def)

lemma setWorking_paired:
  assumes "storesPaired st"
  shows "storesPaired (snd (setWorkingOnOrder m env i u role st))"
  using assms
  by (auto simp: setWorkingOnOrder_def storesPaired_def Let_def savedList_def
      list_all_mapWhereId list_all_updateFirst list_all_rows_set flagsPaired_claim
      flagsPaired_release)

lemma clearWorking_paired:
  assumes "storesPaired st"
  shows "storesPaired (snd (clearWorkingOnOrder m env i u role st))"
  using assms
  by (auto simp: clearWorkingOnOrder_def storesPaired_def Let_def savedList_def
      list_all_mapWhereId list_all_updateFirst list_all_rows_clear flagsPaired_release
      split: option.splits)


lemma setWorking_cache:
  "ordersCache (snd (setWorkingOnOrder m env i u ''armador'' st))
     = (if fst (setWorkingOnOrder m env i u ''armador'' st)
        then mapWhereId i (claimOrder u (clock env 0)) (ordersCache st)
        else mapWhereId i releaseOrder
               (mapWhereId i (claimOrder u (clock env 0)) (ordersCache st)))"
  by (simp add: setWorkingOnOrder_def Let_def)

lemma clearWorking_cache:
  "\<not> (truthyStr role \<and> role \<noteq> Some ''armador'') \<Longrightarrow>
   ordersCache (snd (clearWorkingOnOrder m env i u role st))
     = mapWhereId i releaseOrder (ordersCache st)"
  by (auto simp: clearWorkingOnOrder_def Let_def split: option.splits)

lemma mapWhereId_claimed:
  "list_all (\<lambda>r. o_id r = i \<longrightarrow>
       currentlyWorkingBy r = Val u \<and> workingStartTime r = Val t)
     (mapWhereId i (claimOrder u t) xs)"
  by (induction xs) (simp_all add: mapWhereId_def claimOrder_def)

lemma mapWhereId_released:
  "list_all (\<lambda>r. o_id r = i \<longrightarrow> currentlyWorkingBy r = Undefined \<and> workingStartTime r = Undefined)
     (mapWhereId i releaseOrder xs)"
  by (induction xs) (simp_all add: mapWhereId_def releaseOrder_def)

text \<open>
  The two operations on the working fields keep the pairing: if in the cache, in the local
  list and in the backend every order has \<open>currentlyWorkingBy\<close> set exactly when
  \<open>workingStartTime\<close> is set, then the same holds after \<open>setWorkingOnOrder\<close> and after
  \<open>clearWorkingOnOrder\<close>, in either mode, whatever the arguments and whichever access fails.
  For an operator, \<open>setWorkingOnOrder\<close> leaves every cached order of that id with both
  fields set when it returns true and with both unset when it returns false (the
  rollback), and \<open>clearWorkingOnOrder\<close> leaves both unset.
\<close>

lemma set_and_clear_keep_flags_paired:
  assumes "storesPaired st"
  shows "storesPaired (snd (setWorkingOnOrder useLocalStorage env orderId userName userRole st))
       \<and> storesPaired (snd (clearWorkingOnOrder useLocalStorage env orderId optName optRole st))
       \<and> list_all (\<lambda>r. o_id r = orderId \<longrightarrow>
            (if fst (setWorkingOnOrder useLocalStorage env orderId userName ''armador'' st)
             then currentlyWorkingBy r = Val userName \<and> workingStartTime r = Val (clock env 0)
             else currentlyWorkingBy r = Undefined \<and> workingStartTime r = Undefined))
           (ordersCache (snd (setWorkingOnOrder useLocalStorage env orderId userName ''armador'' st)))
       \<and> list_all (\<lambda>r. o_id r = orderId \<longrightarrow>
               currentlyWorkingBy r = Undefined \<and> workingStartTime r = Undefined)
           (ordersCache (snd (clearWorkingOnOrder useLocalStorage env orderId optName
                                (Some ''armador'') st)))"
proof -
  have a: "storesPaired (snd (setWorkingOnOrder useLocalStorage env orderId userName userRole st))"
    by (rule setWorking_paired [OF assms])
  have b: "storesPaired (snd (clearWorkingOnOrder useLocalStorage env orderId optName optRole st))"
    by (rule clearWorking_paired [OF assms])
  have c: "list_all (\<lambda>r. o_id r = orderId \<longrightarrow>
            (if fst (setWorkingOnOrder useLocalStorage env orderId userName ''armador'' st)
             then currentlyWorkingBy r = Val userName \<and> workingStartTime r = Val (clock env 0)
             else currentlyWorkingBy r = Undefined \<and> workingStartTime r = Undefined))
           (ordersCache (snd (setWorkingOnOrder useLocalStorage env orderId userName ''armador'' st)))"
    using mapWhereId_claimed [of orderId userName "clock env 0" "ordersCache st"]
      mapWhereId_released [of orderId "mapWhereId orderId (claimOrder userName (clock env 0)) (ordersCache st)"]
    by (simp add: setWorking_cache)
  have d: "list_all (\<lambda>r. o_id r = orderId \<longrightarrow>
               currentlyWorkingBy r = Undefined \<and> workingStartTime r = Undefined)
           (ordersCache (snd (clearWorkingOnOrder useLocalStorage env orderId optName
                                (Some ''armador'') st)))"
    using mapWhereId_released [of orderId "ordersCache st"]
    by (simp add: clearWorking_cache truthyStr_def)
  from a b c d show ?thesis by blast
qed

text \<open>
  \<open>updateOrder\<close> writes the two fields as well, each on its own (lines 471-472): a
  \<open>currentlyWorkingBy\<close> that is \<open>null\<close> clears the column, while a \<open>workingStartTime\<close> that
  is unset is not sent and leaves the column as it is; \<open>clearWorkingOnOrder\<close> sends \<open>null\<close>
  for both.

  C7 at the failing input. Every store is paired: the backend holds the order as claimed by
  Camilo, with claimant and start time, and the cache holds the snapshot fetched before the
  claim (\<open>sample_fetch\<close>), with neither. The coordinator sends that snapshot with a
  corrected address. The update succeeds; in the backend the claimant is gone and the
  start time is still there, and the forced fetch puts an order into the cache whose
  \<open>currentlyWorkingBy\<close> is unset while its \<open>workingStartTime\<close> is set.
\<close>

theorem C7_update_unpairs_working_flags:
  "storesPaired claimedState
   \<and> flagsPaired editedOrder
   \<and> fst (updateOrder False okEnv editedOrder (Some riki) claimedState) = True
   \<and> map currently_working_by
         (t_orders (db (snd (updateOrder False okEnv editedOrder (Some riki) claimedState))))
       = [None]
   \<and> map working_start_time
         (t_orders (db (snd (updateOrder False okEnv editedOrder (Some riki) claimedState))))
       = [Some 1500]
   \<and> map currentlyWorkingBy
         (fst (fetchOrders False okEnv True False
                 (snd (updateOrder False okEnv editedOrder (Some riki) claimedState))))
       = [Null]
   \<and> map workingStartTime
         (fst (fetchOrders False okEnv True False
                 (snd (updateOrder False okEnv editedOrder (Some riki) claimedState))))
       = [Val 1500]
   \<and> \<not> storesPaired
         (snd (fetchOrders False okEnv True False
                 (snd (updateOrder False okEnv editedOrder (Some riki) claimedState))))"
  by code_simp

section \<open>Claim C8: the cache after a failed mutation\<close>











section \<open>Claim C9: releasing an order nobody holds\<close>

lemma sameOrder_refl: "sameOrder r r"
  by (simp add: sameOrder_def)

lemma sameOrder_release:
  "present (currentlyWorkingBy r) = None \<Longrightarrow> present (workingStartTime r) = None
   \<Longrightarrow> sameOrder (releaseOrder r) r"
  by (simp add: sameOrder_def releaseOrder_def present_simps)

lemma mapWhereId_unclaimed:
  "list_all (unclaimed i) xs \<Longrightarrow> list_all2 sameOrder (mapWhereId i releaseOrder xs) xs"
  by (induction xs) (simp_all add: mapWhereId_def unclaimed_def sameOrder_refl sameOrder_release)

lemma updateFirst_unclaimed:
  "list_all (unclaimed i) xs
   \<Longrightarrow> list_all2 sameOrder (updateFirst (\<lambda>r. o_id r = i) releaseOrder xs) xs"
proof (induction xs)
  case Nil
  then show ?case by simp
next
  case (Cons x xs)
  have "list_all2 sameOrder xs xs"
    by (simp add: list_all2_same sameOrder_refl)
  with Cons show ?case
    by (simp add: unclaimed_def sameOrder_refl sameOrder_release)
qed

lemma rows_unclaimed:
  "list_all (rowUnclaimed i) rs \<Longrightarrow>
   map (\<lambda>r. if or_id r = i
             then r\<lparr>currently_working_by := None, working_start_time := None\<rparr> else r) rs = rs"
  by (induction rs) (auto simp: rowUnclaimed_def)

lemma savedList_cache: "savedList (st\<lparr>ordersCache := c\<rparr>) = savedList st"
  by (simp add: savedList_def)

lemma clearWorking_cache_any:
  "ordersCache (snd (clearWorkingOnOrder m env i u role st)) = ordersCache st
   \<or> ordersCache (snd (clearWorkingOnOrder m env i u role st))
        = mapWhereId i releaseOrder (ordersCache st)"
  by (simp add: clearWorkingOnOrder_def Let_def split: option.splits)

lemma clearWorking_saved_any:
  "savedList (snd (clearWorkingOnOrder m env i u role st)) = savedList st
   \<or> savedList (snd (clearWorkingOnOrder m env i u role st))
        = updateFirst (\<lambda>r. o_id r = i) releaseOrder (savedList st)"
  by (simp add: clearWorkingOnOrder_def Let_def savedList_cache split: option.splits)
    (simp add: savedList_def)

lemma clearWorking_slot:
  "(localOrders (snd (clearWorkingOnOrder m env i u role st)) = None) = (localOrders st = None)"
proof -
  have "find P (savedList st) = Some x \<Longrightarrow> localOrders st \<noteq> None" for P x
    by (cases "localOrders st") (simp_all add: savedList_def)
  then show ?thesis
    by (auto simp: clearWorkingOnOrder_def Let_def savedList_cache split: option.splits)
qed

lemma clearWorking_db_any:
  "db (snd (clearWorkingOnOrder m env i u role st)) = db st
   \<or> db (snd (clearWorkingOnOrder m env i u role st))
        = (db st)\<lparr>t_orders :=
            map (\<lambda>r. if or_id r = i
                      then r\<lparr>currently_working_by := None, working_start_time := None\<rparr>
                      else r)
              (t_orders (db st))\<rparr>"
  by (simp add: clearWorkingOnOrder_def Let_def split: option.splits)

lemma clearWorking_time:
  "lastFetchTime (snd (clearWorkingOnOrder m env i u role st)) = lastFetchTime st"
  by (simp add: clearWorkingOnOrder_def Let_def split: option.splits)

text \<open>
  Whatever the stores hold, the call returns false exactly when an access it makes fails.
\<close>

lemma clearWorking_result:
  "fst (clearWorkingOnOrder m env i u role st) = (\<not> clearFailure m env i u role st)"
  by (auto simp: clearWorkingOnOrder_def clearFailure_def Let_def savedList_cache
      split: option.splits)

text \<open>
  C9, as stated, fails twice. In remote mode the call always sends its update, and when
  that fails it returns false although the order has no claimant. And an order whose
  \<open>currentlyWorkingBy\<close> is unset while its \<open>workingStartTime\<close> is set loses the start time:
  the call is not a no-op on it. Such an order is in the cache after the coordinator's
  update of a claimed order and the fetch that follows it.
\<close>

theorem C9_release_can_fail_or_change:
  "present (currentlyWorkingBy (hd (ordersCache workState))) = None
   \<and> o_id (hd (ordersCache workState)) = ''PED-1''
   \<and> fst (clearWorkingOnOrder False (failEnv UpdateWorking) ''PED-1'' None None workState)
       = False
   \<and> map o_id (ordersCache unpairedState) = [''PED-1'']
   \<and> map currentlyWorkingBy (ordersCache unpairedState) = [Null]
   \<and> map workingStartTime (ordersCache unpairedState) = [Val 1500]
   \<and> map workingStartTime
        (ordersCache (snd (clearWorkingOnOrder False okEnv ''PED-1'' None None unpairedState)))
       = [Undefined]"
  by code_simp

text \<open>
  C9, amended: when the order of that id has neither \<open>currentlyWorkingBy\<close> nor
  \<open>workingStartTime\<close> set, in the cache, in the local list and in the backend, then for
  every (possibly omitted) user name and role \<open>clearWorkingOnOrder\<close> leaves every order of
  the cache and of the local list unchanged in every field (an unset working field stays
  unset), and leaves the backend, the presence of the local list and the fetch time as they
  were; and it returns false exactly when an access that the call makes fails, and true
  otherwise. The accesses it makes, once past the role test: in remote mode the update; in
  local mode the read of the list, and the write of the list when the list holds the order
  and no user name is given (a given name is not the claimant of an unclaimed order).
\<close>

theorem C9_release_of_unclaimed_is_noop:
  assumes "unclaimedEverywhere orderId st"
  shows "list_all2 sameOrder
           (ordersCache (snd (clearWorkingOnOrder useLocalStorage env orderId userName userRole
                                st)))
           (ordersCache st)
       \<and> list_all2 sameOrder
           (savedList (snd (clearWorkingOnOrder useLocalStorage env orderId userName userRole
                              st)))
           (savedList st)
       \<and> (localOrders (snd (clearWorkingOnOrder useLocalStorage env orderId userName userRole
                               st)) = None)
           = (localOrders st = None)
       \<and> db (snd (clearWorkingOnOrder useLocalStorage env orderId userName userRole st)) = db st
       \<and> lastFetchTime (snd (clearWorkingOnOrder useLocalStorage env orderId userName userRole
                                st))
           = lastFetchTime st
       \<and> fst (clearWorkingOnOrder useLocalStorage env orderId userName userRole st)
           = (\<not> clearFailure useLocalStorage env orderId userName userRole st)
       \<and> clearFailure useLocalStorage env orderId userName userRole st
           = (\<not> (truthyStr userRole \<and> userRole \<noteq> Some ''armador'')
              \<and> (if useLocalStorage
                  then fails env LocalRead
                       \<or> (list_ex (\<lambda>r. o_id r = orderId) (savedList st)
                           \<and> \<not> truthyStr userName \<and> fails env LocalWrite)
                  else fails env UpdateWorking))"
proof -
  let ?st' = "snd (clearWorkingOnOrder useLocalStorage env orderId userName userRole st)"
  from assms have c: "list_all (unclaimed orderId) (ordersCache st)"
    and l: "list_all (unclaimed orderId) (savedList st)"
    and d: "list_all (rowUnclaimed orderId) (t_orders (db st))"
    by (simp_all add: unclaimedEverywhere_def)
  have same: "list_all2 sameOrder xs xs" for xs
    by (simp add: list_all2_same sameOrder_refl)
  have 1: "list_all2 sameOrder (ordersCache ?st') (ordersCache st)"
    using clearWorking_cache_any [of useLocalStorage env orderId userName userRole st]
      mapWhereId_unclaimed [OF c] same
    by auto
  have 2: "list_all2 sameOrder (savedList ?st') (savedList st)"
    using clearWorking_saved_any [of useLocalStorage env orderId userName userRole st]
      updateFirst_unclaimed [OF l] same
    by auto
  have 3: "db ?st' = db st"
    using clearWorking_db_any [of useLocalStorage env orderId userName userRole st]
      rows_unclaimed [OF d]
    by auto
  have 4: "clearFailure useLocalStorage env orderId userName userRole st
           = (\<not> (truthyStr userRole \<and> userRole \<noteq> Some ''armador'')
              \<and> (if useLocalStorage
                  then fails env LocalRead
                       \<or> (list_ex (\<lambda>r. o_id r = orderId) (savedList st)
                           \<and> \<not> truthyStr userName \<and> fails env LocalWrite)
                  else fails env UpdateWorking))"
  proof -
    have f: "(case find (\<lambda>r. o_id r = orderId) xs of
                None \<Rightarrow> False
              | Some stored \<Rightarrow>
                  \<not> (truthyStr userName \<and> present (currentlyWorkingBy stored) \<noteq> userName)
                  \<and> fails env LocalWrite)
             = (list_ex (\<lambda>r. o_id r = orderId) xs \<and> \<not> truthyStr userName
                \<and> fails env LocalWrite)"
      if "list_all (unclaimed orderId) xs" for xs
      using that
      by (induction xs) (auto simp: unclaimed_def truthyStr_def split: option.splits)
    show ?thesis
      by (simp add: clearFailure_def f [OF l])
  qed
  from 1 2 3 4 show ?thesis
    by (simp add: clearWorking_slot clearWorking_time clearWorking_result)
qed

theorem C9_release_of_unclaimed_witness:
  "unclaimedEverywhere ''PED-1'' workState
   \<and> fst (clearWorkingOnOrder False okEnv ''PED-1'' None None workState) = True
   \<and> fst (clearWorkingOnOrder True (failEnv LocalWrite) ''PED-1'' (Some ''Camilo'')
            (Some ''armador'') workState) = True
   \<and> fst (clearWorkingOnOrder True (failEnv LocalWrite) ''PED-1'' None None workState) = False
   \<and> db (snd (clearWorkingOnOrder False okEnv ''PED-1'' None None workState)) = db workState
   \<and> list_all2 sameOrder
        (ordersCache (snd (clearWorkingOnOrder False okEnv ''PED-1'' None None workState)))
        (ordersCache workState)"
proof -
  have h: "unclaimedEverywhere ''PED-1'' workState"
    by code_simp
  have f: "\<not> clearFailure False okEnv ''PED-1'' None None workState"
      "\<not> clearFailure True (failEnv LocalWrite) ''PED-1'' (Some ''Camilo'') (Some ''armador'')
           workState"
      "clearFailure True (failEnv LocalWrite) ''PED-1'' None None workState"
    by code_simp+
  from C9_release_of_unclaimed_is_noop [OF h, of False okEnv None None]
    C9_release_of_unclaimed_is_noop
      [OF h, of True "failEnv LocalWrite" "Some ''Camilo''" "Some ''armador''"]
    C9_release_of_unclaimed_is_noop [OF h, of True "failEnv LocalWrite" None None]
    h f
  show ?thesis
    by simp
qed

section \<open>Claim C4: the prioritized fetch\<close>

lemma status_mapOrderRow: "status (mapOrderRow d) = or_status (row d)"
  by (simp add: mapOrderRow_def)

lemma o_id_mapOrderRow: "o_id (mapOrderRow d) = or_id (row d)"
  by (simp add: mapOrderRow_def)

lemma row_embed: "row (embed d r) = r"
  by (simp add: embed_def)

lemma fresh_ids:
  "map o_id (freshOrders True st)
     = map or_id (take 60 (filter (\<lambda>r. or_status r \<noteq> pagado)
                             (rev (sort_key created_at (t_orders (db st))))))"
  by (simp add: freshOrders_def selectOrders_def o_id_mapOrderRow row_embed comp_def)

lemma fresh_statuses:
  "map status (freshOrders True st)
     = map or_status (take 60 (filter (\<lambda>r. or_status r \<noteq> pagado)
                                 (rev (sort_key created_at (t_orders (db st))))))"
  by (simp add: freshOrders_def selectOrders_def status_mapOrderRow row_embed comp_def)

lemma take_filter_all: "x \<in> set (take n (filter P xs)) \<Longrightarrow> P x"
  by (drule in_set_takeD) simp

lemma fresh_not_paid: "list_all (\<lambda>r. status r \<noteq> pagado) (freshOrders True st)"
proof -
  have "\<forall>s \<in> set (map status (freshOrders True st)). s \<noteq> pagado"
    unfolding fresh_statuses
    by (auto dest: take_filter_all)
  then show ?thesis
    by (simp add: list_all_iff)
qed

lemma distinct_map_take: "distinct (map f xs) \<Longrightarrow> distinct (map f (take n xs))"
  by (simp add: take_map [symmetric] distinct_take)

lemma distinct_map_sorted_rev:
  "distinct (map f xs) \<Longrightarrow> distinct (map f (rev (sort_key g xs)))"
  by (simp add: distinct_map)

lemma fresh_distinct:
  assumes "distinct (map or_id (t_orders (db st)))"
  shows "distinct (map o_id (freshOrders True st))"
  unfolding fresh_ids
  by (intro distinct_map_take distinct_map_filter distinct_map_sorted_rev assms)

lemma filter_paid_merged:
  "filter (\<lambda>r. status r = pagado) (freshOrders True st @ cachedPaid st) = cachedPaid st"
proof -
  have "filter (\<lambda>r. status r = pagado) (freshOrders True st) = []"
    using fresh_not_paid [of st] by (simp add: list_all_iff filter_empty_conv)
  then show ?thesis
    by (simp add: cachedPaid_def)
qed

lemma fetch_prioritized:
  assumes "reachesBackend env forceRefresh st"
  shows "fetchOrders False env forceRefresh True st
       = (freshOrders True st @ cachedPaid st,
          st\<lparr>ordersCache := freshOrders True st @ cachedPaid st, lastFetchTime := clock env 0\<rparr>)"
  using assms
  by (auto simp: fetchOrders_def reachesBackend_def freshOrders_def cachedPaid_def Let_def)

lemma fetch_all:
  assumes "reachesBackend env forceRefresh st"
  shows "fetchOrders False env forceRefresh False st
       = (freshOrders False st,
          st\<lparr>ordersCache := freshOrders False st, lastFetchTime := clock env 0\<rparr>)"
  using assms
  by (auto simp: fetchOrders_def reachesBackend_def freshOrders_def Let_def)

text \<open>
  C4, as stated, fails on the ids: the merge concatenates and never compares ids. After an
  update to \<open>pagado\<close> that failed at the backend, the cache holds the order as paid and
  the backend as open; the next prioritized fetch returns the order twice.
\<close>

theorem C4_prioritized_fetch_duplicates_id:
  "fst (updateOrder False (failEnv UpdateOrder) (sampleOrder\<lparr>status := pagado\<rparr>) None
          workState) = False
   \<and> map o_id (fst (fetchOrders False okEnv True True staleState)) = [''PED-1'', ''PED-1'']
   \<and> map status (fst (fetchOrders False okEnv True True staleState)) = [en_armado, pagado]"
  by (simp add: staleState_def updateOrder_def updateRemote_def failEnv_def okEnv_def Let_def
      workState_def sampleOrder_def fetchOrders_def selectOrders_def sampleDB_def embed_def
      mapOrderRow_def sampleRow_def)

text \<open>
  C4, amended: in remote mode, a prioritized fetch that asks the backend and is answered
  returns, and makes the cache, the orders just fetched, none of them \<open>pagado\<close>, followed by
  exactly the \<open>pagado\<close> orders the cache held, none dropped. No id occurs twice provided the
  backend's ids are distinct, the cached paid orders have distinct ids, and no cached paid
  order has the id of a fetched one. Under the same condition a fetch that is not
  prioritized replaces the cache wholesale by what it fetched.
\<close>

theorem C4_prioritized_fetch_merges:
  assumes "reachesBackend env forceRefresh st"
  shows "fetchOrders False env forceRefresh True st
           = (freshOrders True st @ cachedPaid st,
              st\<lparr>ordersCache := freshOrders True st @ cachedPaid st,
                 lastFetchTime := clock env 0\<rparr>)
       \<and> list_all (\<lambda>r. status r \<noteq> pagado) (freshOrders True st)
       \<and> filter (\<lambda>r. status r = pagado) (freshOrders True st @ cachedPaid st) = cachedPaid st
       \<and> (distinct (map or_id (t_orders (db st))) \<and> distinct (map o_id (cachedPaid st))
            \<and> set (map o_id (freshOrders True st)) \<inter> set (map o_id (cachedPaid st)) = {}
          \<longrightarrow> distinct (map o_id (freshOrders True st @ cachedPaid st)))
       \<and> fetchOrders False env forceRefresh False st
           = (freshOrders False st,
              st\<lparr>ordersCache := freshOrders False st, lastFetchTime := clock env 0\<rparr>)"
  using fetch_prioritized [OF assms] fetch_all [OF assms] fresh_not_paid filter_paid_merged
    fresh_distinct
  by simp

theorem C4_prioritized_fetch_witness:
  "reachesBackend okEnv True paidCacheState
   \<and> map o_id (fst (fetchOrders False okEnv True True paidCacheState)) = [''PED-1'', ''PED-2'']
   \<and> map status (fst (fetchOrders False okEnv True True paidCacheState)) = [en_armado, pagado]
   \<and> map o_id (fst (fetchOrders False okEnv True False paidCacheState)) = [''PED-1'']"
proof -
  have h: "reachesBackend okEnv True paidCacheState"
    by (simp add: reachesBackend_def okEnv_def)
  have f: "map o_id (freshOrders True paidCacheState) = [''PED-1'']"
      "map status (freshOrders True paidCacheState) = [en_armado]"
      "map o_id (freshOrders False paidCacheState) = [''PED-1'']"
    by (simp_all add: freshOrders_def selectOrders_def paidCacheState_def workState_def
        sampleDB_def sampleRow_def embed_def mapOrderRow_def)
  have p: "map o_id (cachedPaid paidCacheState) = [''PED-2'']"
      "map status (cachedPaid paidCacheState) = [pagado]"
    by (simp_all add: cachedPaid_def paidCacheState_def workState_def sampleOrder_def
        secondOrder_def)
  from C4_prioritized_fetch_merges [OF h] h f p show ?thesis
    by simp
qed

section \<open>Claim C3: history entries across \<open>updateOrder\<close>\<close>

lemma history_updHeader: "t_order_history (updHeader order d) = t_order_history d"
  by (simp add: updHeader_def)

lemma history_delProducts: "t_order_history (delProducts env order d) = t_order_history d"
  by (simp add: delProducts_def)

lemma history_delMissing: "t_order_history (delMissing env order d) = t_order_history d"
  by (simp add: delMissing_def)

lemma history_delReturned: "t_order_history (delReturned env order d) = t_order_history d"
  by (simp add: delReturned_def)

lemma updateRemote_history:
  "\<exists>rows. t_order_history (snd (updateRemote env order cu d))
             = t_order_history d @ rows
         \<and> set (map hr_order_id rows) \<subseteq> {o_id order}"
proof -
  have ids: "set (map hr_order_id (historyRows env order d')) \<subseteq> {o_id order}" for d'
    by (auto simp: historyRows_def)
  have "t_order_history (snd (updateRemote env order cu d)) = t_order_history d
      \<or> (\<exists>d'. t_order_history (snd (updateRemote env order cu d))
                = t_order_history d @ historyRows env order d')"
    by (simp add: updateRemote_def Let_def history_updHeader history_delProducts
        history_delMissing history_delReturned) blast
  then show ?thesis
    using ids by (metis append_Nil2 empty_subsetI list.set(1) list.simps(8))
qed

lemma updateOrder_remote_db:
  "db (snd (updateOrder False env order cu st)) = snd (updateRemote env order cu (db st))"
  by (simp add: updateOrder_def Let_def split: prod.splits)

lemma updateOrder_remote_result:
  "fst (updateOrder False env order cu st) = fst (updateRemote env order cu (db st))"
  by (simp add: updateOrder_def Let_def split: prod.splits)

lemma updateOrder_remote_history:
  "\<exists>rows. t_order_history (db (snd (updateOrder False env order cu st)))
             = t_order_history (db st) @ rows
         \<and> set (map hr_order_id rows) \<subseteq> {o_id order}"
  using updateRemote_history [of env order cu "db st"]
  by (simp add: updateOrder_remote_db)

lemma updateOrder_local_store:
  assumes "fst (updateOrder True env order cu st)"
  shows "savedList (snd (updateOrder True env order cu st))
       = updateFirst (\<lambda>r. o_id r = o_id order) (\<lambda>_. order) (savedList st)"
proof -
  have nf: "\<not> list_ex (\<lambda>r. o_id r = o_id order) xs
      \<Longrightarrow> updateFirst (\<lambda>r. o_id r = o_id order) (\<lambda>_. order) xs = xs" for xs
    by (induction xs) auto
  have s: "savedList (st\<lparr>ordersCache := c\<rparr>) = savedList st" for c
    by (simp add: savedList_def)
  from assms show ?thesis
    by (auto simp: updateOrder_def Let_def s nf savedList_def split: if_splits)
qed

text \<open>
  The remote branch keeps what is stored: for every order argument and whichever access
  fails, the history table after \<open>updateOrder\<close> is the table of before followed by rows of
  that order, so every history entry id stored before the call is stored after it, also
  when the argument omits stored entries.
\<close>

lemma remote_update_keeps_history:
  "(\<exists>rows. t_order_history (db (snd (updateOrder False env order cu st)))
              = t_order_history (db st) @ rows
          \<and> set (map hr_order_id rows) \<subseteq> {o_id order})
   \<and> set (map hr_id (t_order_history (db st)))
       \<subseteq> set (map hr_id (t_order_history (db (snd (updateOrder False env order cu st)))))"
proof -
  obtain rows where r: "t_order_history (db (snd (updateOrder False env order cu st)))
              = t_order_history (db st) @ rows"
      and i: "set (map hr_order_id rows) \<subseteq> {o_id order}"
    using updateOrder_remote_history by blast
  from r have "set (map hr_id (t_order_history (db st)))
       \<subseteq> set (map hr_id (t_order_history (db (snd (updateOrder False env order cu st)))))"
    by auto
  with r i show ?thesis
    by blast
qed

text \<open>
  At the input below, the remote branch keeps the entry that the argument omits.
\<close>

lemma remote_update_keeps_omitted_history:
  "fst (updateOrder False okEnv (sampleOrder\<lparr>history := []\<rparr>) None workState) = True
   \<and> map hr_id (t_order_history (db workState)) = [''HIST-1'']
   \<and> map hr_id (t_order_history
        (db (snd (updateOrder False okEnv (sampleOrder\<lparr>history := []\<rparr>) None workState))))
      = [''HIST-1'']"
  by code_simp

text \<open>
  C3 at the failing input, in local mode: the stored order has the history entry
  \<open>HIST-1\<close>, the order argument is that order without it. The local branch writes the
  argument over the stored order as a whole (line 442); the call returns true, and the
  entry is no longer stored.
\<close>

theorem C3_local_update_drops_omitted_history:
  "fst (updateOrder True okEnv (localOrder\<lparr>history := []\<rparr>) None workState) = True
   \<and> map h_id (concat (map history (savedList workState))) = [''HIST-1'']
   \<and> map h_id (concat (map history
        (savedList (snd (updateOrder True okEnv (localOrder\<lparr>history := []\<rparr>) None
                           workState)))))
      = []"
  by code_simp

section \<open>Claim C2: \<open>updateOrder\<close> followed by a forced fetch\<close>

text \<open>A remote update that returns true has gone through every step.\<close>

lemma updateRemote_success:
  assumes ok: "fst (updateRemote env order cu d)"
  shows "snd (updateRemote env order cu d) = remoteWritten env order d"
proof -
  let ?d1 = "delProducts env order (updHeader order d)"
  let ?d2 = "delMissing env order (?d1\<lparr>t_products := t_products ?d1 @ productRows env order\<rparr>)"
  let ?d3 = "delReturned env order
                 (?d2\<lparr>t_missing_products := t_missing_products ?d2 @ missingRows order\<rparr>)"
  let ?d4 = "?d3\<lparr>t_returned_products := t_returned_products ?d3 @ returnedRows order\<rparr>"
  have c1: "\<not> fails env UpdateOrder"
  proof
    assume a: "fails env UpdateOrder"
    have "fst (updateRemote env order cu d) = False"
      by (simp add: updateRemote_def a)
    with ok show False by simp
  qed
  have c2: "\<not> (products order \<noteq> [] \<and> fails env InsertProducts)"
  proof
    assume a: "products order \<noteq> [] \<and> fails env InsertProducts"
    have "fst (updateRemote env order cu d) = False"
      by (simp add: updateRemote_def Let_def c1 a)
    with ok show False by simp
  qed
  have c3: "\<not> (missingProducts order \<noteq> [] \<and> fails env InsertMissing)"
  proof
    assume a: "missingProducts order \<noteq> [] \<and> fails env InsertMissing"
    have "fst (updateRemote env order cu d) = False"
      by (simp add: updateRemote_def Let_def c1 c2 a)
    with ok show False by simp
  qed
  have c4: "\<not> (returnedProducts order \<noteq> [] \<and> fails env InsertReturned)"
  proof
    assume a: "returnedProducts order \<noteq> [] \<and> fails env InsertReturned"
    have "fst (updateRemote env order cu d) = False"
      by (simp add: updateRemote_def Let_def c1 c2 c3 a)
    with ok show False by simp
  qed
  have c5: "\<not> (historyRows env order ?d4 \<noteq> [] \<and> fails env InsertHistory)"
  proof
    assume a: "historyRows env order ?d4 \<noteq> [] \<and> fails env InsertHistory"
    have "fst (updateRemote env order cu d) = False"
      by (simp add: updateRemote_def Let_def c1 c2 c3 c4 a)
    with ok show False by simp
  qed
  show ?thesis
    by (simp add: updateRemote_def remoteWritten_def Let_def c1 c2 c3 c4 c5)
qed


lemma sel_updHeader:
  "t_orders (updHeader order d)
     = map (\<lambda>r. if or_id r = o_id order then updateOrderRow order r else r) (t_orders d)"
  "t_products (updHeader order d) = t_products d"
  "t_missing_products (updHeader order d) = t_missing_products d"
  "t_returned_products (updHeader order d) = t_returned_products d"
  "t_order_history (updHeader order d) = t_order_history d"
  by (simp_all add: updHeader_def)

lemma sel_delProducts:
  "t_orders (delProducts env order d) = t_orders d"
  "t_products (delProducts env order d)
     = (if fails env DeleteProducts then t_products d
        else filter (\<lambda>p. pr_order_id p \<noteq> o_id order) (t_products d))"
  "t_missing_products (delProducts env order d) = t_missing_products d"
  "t_returned_products (delProducts env order d) = t_returned_products d"
  "t_order_history (delProducts env order d) = t_order_history d"
  by (simp_all add: delProducts_def)

lemma sel_delMissing:
  "t_orders (delMissing env order d) = t_orders d"
  "t_products (delMissing env order d) = t_products d"
  "t_missing_products (delMissing env order d)
     = (if fails env DeleteMissing then t_missing_products d
        else filter (\<lambda>m. mr_order_id m \<noteq> o_id order) (t_missing_products d))"
  "t_returned_products (delMissing env order d) = t_returned_products d"
  "t_order_history (delMissing env order d) = t_order_history d"
  by (simp_all add: delMissing_def)

lemma sel_delReturned:
  "t_orders (delReturned env order d) = t_orders d"
  "t_products (delReturned env order d) = t_products d"
  "t_missing_products (delReturned env order d) = t_missing_products d"
  "t_returned_products (delReturned env order d)
     = (if fails env DeleteReturned then t_returned_products d
        else filter (\<lambda>x. rr_order_id x \<noteq> o_id order) (t_returned_products d))"
  "t_order_history (delReturned env order d) = t_order_history d"
  by (simp_all add: delReturned_def)

lemmas sel_steps = sel_updHeader sel_delProducts sel_delMissing sel_delReturned

lemma remoteWritten_orders:
  "t_orders (remoteWritten env order d)
     = map (\<lambda>r. if or_id r = o_id order then updateOrderRow order r else r) (t_orders d)"
  by (simp add: remoteWritten_def Let_def sel_steps)

lemma remoteWritten_products:
  "\<not> fails env DeleteProducts \<Longrightarrow>
   t_products (remoteWritten env order d)
     = filter (\<lambda>p. pr_order_id p \<noteq> o_id order) (t_products d) @ productRows env order"
  by (simp add: remoteWritten_def Let_def sel_steps)

lemma remoteWritten_missing:
  "\<not> fails env DeleteMissing \<Longrightarrow>
   t_missing_products (remoteWritten env order d)
     = filter (\<lambda>m. mr_order_id m \<noteq> o_id order) (t_missing_products d) @ missingRows order"
  by (simp add: remoteWritten_def Let_def sel_steps)

lemma remoteWritten_returned:
  "\<not> fails env DeleteReturned \<Longrightarrow>
   t_returned_products (remoteWritten env order d)
     = filter (\<lambda>x. rr_order_id x \<noteq> o_id order) (t_returned_products d) @ returnedRows order"
  by (simp add: remoteWritten_def Let_def sel_steps)

lemma existingIds_history:
  "t_order_history d = t_order_history d' \<Longrightarrow> existingIds env order d = existingIds env order d'"
  by (simp add: existingIds_def)


lemma historyRows_same_history:
  "t_order_history d' = t_order_history d \<Longrightarrow> historyRows env order d' = historyRows env order d"
  by (simp add: historyRows_def existingIds_def)

lemma remoteWritten_history:
  "t_order_history (remoteWritten env order d)
     = t_order_history d @ historyRows env order d"
proof -
  let ?d1 = "delProducts env order (updHeader order d)"
  let ?d2 = "delMissing env order (?d1\<lparr>t_products := t_products ?d1 @ productRows env order\<rparr>)"
  let ?d3 = "delReturned env order
                 (?d2\<lparr>t_missing_products := t_missing_products ?d2 @ missingRows order\<rparr>)"
  let ?d4 = "?d3\<lparr>t_returned_products := t_returned_products ?d3 @ returnedRows order\<rparr>"
  have h: "t_order_history ?d4 = t_order_history d"
    by (simp add: sel_steps)
  have e: "historyRows env order ?d4 = historyRows env order d"
    by (rule historyRows_same_history [OF h])
  have "t_order_history (remoteWritten env order d)
      = t_order_history ?d4 @ historyRows env order ?d4"
    by (simp add: remoteWritten_def Let_def)
  then show ?thesis
    by (simp only: h e)
qed

lemma filter_own_productRows:
  "filter (\<lambda>p. pr_order_id p = o_id order) (productRows env order) = productRows env order"
  by (simp add: productRows_def filter_map comp_def case_prod_beta)

lemma filter_own_missingRows:
  "filter (\<lambda>m. mr_order_id m = o_id order) (missingRows order) = missingRows order"
  by (simp add: missingRows_def filter_map comp_def)

lemma filter_own_returnedRows:
  "filter (\<lambda>x. rr_order_id x = o_id order) (returnedRows order) = returnedRows order"
  by (simp add: returnedRows_def filter_map comp_def)

lemma filter_removed: "filter P (filter (\<lambda>x. \<not> P x) xs) = []"
  by (induction xs) auto

lemma map_enumerate_snd:
  "map (\<lambda>(i, p). f p) (enumerate n xs) = map f xs"
  by (induction xs arbitrary: n) auto

lemma map_back_products:
  assumes "list_all (\<lambda>p. p_id p \<noteq> []) (products order)"
  shows "map mapProductRow (productRows env order) = map zeroAsUndefined (products order)"
proof -
  have "map mapProductRow (productRows env order)
      = map (\<lambda>(i, p). mapProductRow
            \<lparr> pr_id = strOr (p_id p) (generateUniqueId ''PROD-'' env i),
              pr_order_id = o_id order, pr_code = p_code p, pr_name = p_name p,
              pr_quantity = p_quantity p, original_quantity = originalQuantity p,
              is_checked = isChecked p, unit_price = unitPrice p, pr_subtotal = subtotal p \<rparr>)
          (enumerate 0 (products order))"
    by (simp add: productRows_def comp_def case_prod_beta)
  also have "\<dots> = map (\<lambda>(i, p). zeroAsUndefined p) (enumerate 0 (products order))"
  proof (rule map_cong [OF refl])
    fix x assume "x \<in> set (enumerate 0 (products order))"
    then have "snd x \<in> set (products order)"
      by (metis in_set_zipE enumerate_eq_zip prod.collapse)
    with assms have "p_id (snd x) \<noteq> []"
      by (simp add: list_all_iff)
    then show "(case x of (i, p) \<Rightarrow> mapProductRow
            \<lparr> pr_id = strOr (p_id p) (generateUniqueId ''PROD-'' env i),
              pr_order_id = o_id order, pr_code = p_code p, pr_name = p_name p,
              pr_quantity = p_quantity p, original_quantity = originalQuantity p,
              is_checked = isChecked p, unit_price = unitPrice p, pr_subtotal = subtotal p \<rparr>)
          = (case x of (i, p) \<Rightarrow> zeroAsUndefined p)"
      by (cases x) (simp add: mapProductRow_def zeroAsUndefined_def strOr_def)
  qed
  also have "\<dots> = map zeroAsUndefined (products order)"
    by (rule map_enumerate_snd)
  finally show ?thesis .
qed

lemma map_back_missing: "map mapMissingRow (missingRows order) = missingProducts order"
proof -
  have "mapMissingRow \<lparr> mr_order_id = i, mr_product_id = m_productId m,
          mr_product_name = m_productName m, mr_code = m_code m,
          mr_quantity = m_quantity m \<rparr> = m" for i m
    by (cases m) (simp add: mapMissingRow_def)
  then show ?thesis
    by (simp add: missingRows_def comp_def)
qed

lemma map_back_returned: "map mapReturnedRow (returnedRows order) = returnedProducts order"
proof -
  have "mapReturnedRow \<lparr> rr_order_id = i, rr_product_id = r_productId x,
          rr_product_name = r_productName x, rr_code = r_code x,
          rr_quantity = r_quantity x, rr_reason = reason x \<rparr> = x" for i x
    by (cases x) (simp add: mapReturnedRow_def)
  then show ?thesis
    by (simp add: returnedRows_def comp_def)
qed


lemma filter_own_historyRows:
  "filter (\<lambda>h. hr_order_id h = o_id order) (historyRows env order d) = historyRows env order d"
  by (simp add: historyRows_def filter_map comp_def case_prod_beta)

lemma embed_written:
  assumes del: "\<not> fails env DeleteProducts" "\<not> fails env DeleteMissing"
      "\<not> fails env DeleteReturned"
    and own: "or_id r1 = o_id order"
  shows "orEmpty (d_products (embed (remoteWritten env order d) r1)) = productRows env order"
    and "orEmpty (d_missing_products (embed (remoteWritten env order d) r1)) = missingRows order"
    and "orEmpty (d_returned_products (embed (remoteWritten env order d) r1))
           = returnedRows order"
    and "orEmpty (d_order_history (embed (remoteWritten env order d) r1))
           = filter (\<lambda>h. hr_order_id h = o_id order) (t_order_history d)
             @ historyRows env order d"
proof -
  show "orEmpty (d_products (embed (remoteWritten env order d) r1)) = productRows env order"
    by (simp add: embed_def orEmpty_def own remoteWritten_products [OF del(1)] filter_removed
        filter_own_productRows)
  show "orEmpty (d_missing_products (embed (remoteWritten env order d) r1)) = missingRows order"
    by (simp add: embed_def orEmpty_def own remoteWritten_missing [OF del(2)] filter_removed
        filter_own_missingRows)
  show "orEmpty (d_returned_products (embed (remoteWritten env order d) r1))
           = returnedRows order"
    by (simp add: embed_def orEmpty_def own remoteWritten_returned [OF del(3)] filter_removed
        filter_own_returnedRows)
  show "orEmpty (d_order_history (embed (remoteWritten env order d) r1))
           = filter (\<lambda>h. hr_order_id h = o_id order) (t_order_history d)
             @ historyRows env order d"
    by (simp add: embed_def orEmpty_def own remoteWritten_history filter_own_historyRows)
qed

lemma written_row:
  assumes "r1 \<in> set (t_orders (remoteWritten env order d))" and "or_id r1 = o_id order"
  shows "\<exists>r0. r1 = updateOrderRow order r0"
  using assms by (auto simp: remoteWritten_orders split: if_splits)

lemma header_back:
  "client_name (updateOrderRow order r0) = clientName order"
  "client_address (updateOrderRow order r0) = Some (clientAddress order)"
  "or_status (updateOrderRow order r0) = status order"
  "is_paid (updateOrderRow order r0) = isPaid order"
  "keptIfSent (paymentMethod order) (ofColumn (payment_method (updateOrderRow order r0)))"
  "keptIfSent (armedBy order) (ofColumn (armed_by (updateOrderRow order r0)))"
  "keptIfSent (controlledBy order) (ofColumn (controlled_by (updateOrderRow order r0)))"
  "keptIfSent (awaitingPaymentVerification order)
     (ofColumn (awaiting_payment_verification (updateOrderRow order r0)))"
  "keptIfSent (initialNotes order) (ofColumn (initial_notes (updateOrderRow order r0)))"
  "keptIfSent (currentlyWorkingBy order)
     (ofColumn (currently_working_by (updateOrderRow order r0)))"
  "present (workingStartTime order) \<noteq> None \<longrightarrow>
     orUndefined (working_start_time (updateOrderRow order r0)) = workingStartTime order"
  "totalAmount order \<noteq> Undefined \<longrightarrow>
     orUndefined (parseIfTruthy (total_amount (updateOrderRow order r0)))
       = orUndefined (parseIfTruthy (present (totalAmount order)))"
  by (auto simp: updateOrderRow_def keptIfSent_def sent_def present_def ofColumn_def
      orUndefined_def split: js.splits)

lemma in_enumerate: "h \<in> set ys \<Longrightarrow> \<exists>i. (i, h) \<in> set (enumerate n ys)"
  by (induction ys arbitrary: n) auto

lemma new_history_back:
  assumes "h \<in> set (history order)" and "h_id h \<noteq> []"
    and "h_id h \<notin> set (storedHistoryIds (o_id order) d)"
  shows "h \<in> mapHistoryRow ` set (historyRows env order d)"
proof -
  have "h_id h \<notin> set (existingIds env order d)"
    using assms(3) by (simp add: existingIds_def storedHistoryIds_def)
  with assms(1) have "h \<in> set (filter (\<lambda>h. h_id h \<notin> set (existingIds env order d))
      (history order))"
    by simp
  then have "\<exists>i. (i, h) \<in> set (enumerate 0
      (filter (\<lambda>h. h_id h \<notin> set (existingIds env order d)) (history order)))"
    by (rule in_enumerate)
  then obtain i where i: "(i, h) \<in> set (enumerate 0
      (filter (\<lambda>h. h_id h \<notin> set (existingIds env order d)) (history order)))"
    by (rule exE)
  have eta: "mapHistoryRow \<lparr> hr_id = strOr (h_id h) alt, hr_order_id = o_id order,
       hr_action = action h, user_name = h_user h, hr_notes = h_notes h,
       hr_created_at = timestamp h \<rparr> = h" for alt
    using assms(2) by (cases h) (simp add: mapHistoryRow_def strOr_def)
  from i have "\<lparr> hr_id = strOr (h_id h)
        (generateUniqueId ''HIST-'' env (length (products order) + i)),
       hr_order_id = o_id order,
       hr_action = action h, user_name = h_user h, hr_notes = h_notes h,
       hr_created_at = timestamp h \<rparr> \<in> set (historyRows env order d)"
    by (force simp: historyRows_def)
  then show ?thesis
    using eta by (metis imageI)
qed


lemma fetch_member:
  assumes "\<not> fails env' SelectOrders"
    and "x \<in> set (fst (fetchOrders False env' True False st'))"
  shows "\<exists>r1 \<in> set (t_orders (db st')). x = mapOrderRow (embed (db st') r1)"
proof -
  from assms have "x \<in> set (map mapOrderRow (selectOrders False (db st')))"
    by (simp add: fetchOrders_def Let_def)
  then obtain r1 where "r1 \<in> set (take 200 (rev (sort_key created_at (t_orders (db st')))))"
      and "x = mapOrderRow (embed (db st') r1)"
    by (auto simp: selectOrders_def)
  moreover from this have "r1 \<in> set (t_orders (db st'))"
    by (auto dest: in_set_takeD)
  ultimately show ?thesis by blast
qed

lemma history_members:
  "set (history (mapOrderRow od)) = mapHistoryRow ` set (orEmpty (d_order_history od))"
  by (simp add: mapOrderRow_def)

lemma round_trip_remote:
  assumes upd: "fst (updateOrder False env order cu st)"
    and del: "\<not> fails env DeleteProducts" "\<not> fails env DeleteMissing"
      "\<not> fails env DeleteReturned"
    and sel: "\<not> fails env' SelectOrders"
    and x: "x \<in> set (fst (fetchOrders False env' True False
                            (snd (updateOrder False env order cu st))))"
    and xid: "o_id x = o_id order"
    and pid: "list_all (\<lambda>p. p_id p \<noteq> []) (products order)"
  shows "clientName x = clientName order \<and> clientAddress x = clientAddress order
       \<and> status x = status order \<and> isPaid x = isPaid order
       \<and> keptIfSent (paymentMethod order) (paymentMethod x)
       \<and> keptIfSent (armedBy order) (armedBy x)
       \<and> keptIfSent (controlledBy order) (controlledBy x)
       \<and> keptIfSent (awaitingPaymentVerification order) (awaitingPaymentVerification x)
       \<and> keptIfSent (initialNotes order) (initialNotes x)
       \<and> keptIfSent (currentlyWorkingBy order) (currentlyWorkingBy x)
       \<and> (present (workingStartTime order) \<noteq> None \<longrightarrow>
            workingStartTime x = workingStartTime order)
       \<and> (totalAmount order \<noteq> Undefined \<longrightarrow>
            totalAmount x = orUndefined (parseIfTruthy (present (totalAmount order))))
       \<and> products x = map zeroAsUndefined (products order)
       \<and> missingProducts x = missingProducts order
       \<and> returnedProducts x = returnedProducts order
       \<and> list_all (\<lambda>h. h_id h \<noteq> [] \<and> h_id h \<notin> set (storedHistoryIds (o_id order) (db st))
                       \<longrightarrow> h \<in> set (history x)) (history order)
       \<and> list_all (\<lambda>hr. hr_order_id hr = o_id order \<longrightarrow> mapHistoryRow hr \<in> set (history x))
           (t_order_history (db st))"
proof -
  let ?D = "remoteWritten env order (db st)"
  from upd have ok: "fst (updateRemote env order cu (db st))"
    by (simp add: updateOrder_remote_result)
  have D: "db (snd (updateOrder False env order cu st)) = ?D"
    by (simp add: updateOrder_remote_db updateRemote_success [OF ok])
  from fetch_member [OF sel x] obtain r1 where r1: "r1 \<in> set (t_orders ?D)"
      and xr: "x = mapOrderRow (embed ?D r1)"
    unfolding D by blast
  have own: "or_id r1 = o_id order"
    using xid by (simp add: xr o_id_mapOrderRow row_embed)
  from written_row [OF r1 own] obtain r0 where r0: "r1 = updateOrderRow order r0" ..
  note emb = embed_written [OF del own, of d for d]
  have hdr: "clientName x = clientName order \<and> clientAddress x = clientAddress order
       \<and> status x = status order \<and> isPaid x = isPaid order
       \<and> keptIfSent (paymentMethod order) (paymentMethod x)
       \<and> keptIfSent (armedBy order) (armedBy x)
       \<and> keptIfSent (controlledBy order) (controlledBy x)
       \<and> keptIfSent (awaitingPaymentVerification order) (awaitingPaymentVerification x)
       \<and> keptIfSent (initialNotes order) (initialNotes x)
       \<and> keptIfSent (currentlyWorkingBy order) (currentlyWorkingBy x)
       \<and> (present (workingStartTime order) \<noteq> None \<longrightarrow>
            workingStartTime x = workingStartTime order)
       \<and> (totalAmount order \<noteq> Undefined \<longrightarrow>
            totalAmount x = orUndefined (parseIfTruthy (present (totalAmount order))))"
    using header_back [of order r0]
    by (simp add: xr mapOrderRow_def row_embed r0)
  have prods: "products x = map zeroAsUndefined (products order)"
    by (simp add: xr mapOrderRow_def emb map_back_products [OF pid])
  have miss: "missingProducts x = missingProducts order"
    by (simp add: xr mapOrderRow_def emb map_back_missing)
  have ret: "returnedProducts x = returnedProducts order"
    by (simp add: xr mapOrderRow_def emb map_back_returned)
  have hist: "set (history x)
      = mapHistoryRow ` set (filter (\<lambda>h. hr_order_id h = o_id order) (t_order_history (db st)))
        \<union> mapHistoryRow ` set (historyRows env order (db st))"
    by (simp add: xr history_members emb image_Un)
  have new: "list_all (\<lambda>h. h_id h \<noteq> [] \<and> h_id h \<notin> set (storedHistoryIds (o_id order) (db st))
                       \<longrightarrow> h \<in> set (history x)) (history order)"
    unfolding list_all_iff hist using new_history_back [of _ order "db st" env]
    by blast
  have old: "list_all (\<lambda>hr. hr_order_id hr = o_id order \<longrightarrow> mapHistoryRow hr \<in> set (history x))
           (t_order_history (db st))"
    unfolding list_all_iff hist by auto
  from hdr prods miss ret new old show ?thesis
    by blast
qed

text \<open>
  The updated order is among the fetched ones when the backend holds a row of its id and
  no more rows than the query asks for.
\<close>

lemma fetch_returns_updated_order:
  assumes upd: "fst (updateOrder False env order cu st)"
    and sel: "\<not> fails env' SelectOrders"
    and few: "length (t_orders (db st)) \<le> 200"
    and stored: "o_id order \<in> or_id ` set (t_orders (db st))"
  shows "\<exists>x \<in> set (fst (fetchOrders False env' True False
                          (snd (updateOrder False env order cu st)))).
           o_id x = o_id order"
proof -
  let ?D = "remoteWritten env order (db st)"
  let ?f = "\<lambda>r. if or_id r = o_id order then updateOrderRow order r else r"
  from upd have ok: "fst (updateRemote env order cu (db st))"
    by (simp add: updateOrder_remote_result)
  have D: "db (snd (updateOrder False env order cu st)) = ?D"
    by (simp add: updateOrder_remote_db updateRemote_success [OF ok])
  from stored obtain r0 where r0: "r0 \<in> set (t_orders (db st))" "or_id r0 = o_id order"
    by auto
  have keep: "or_id (updateOrderRow order r0) = or_id r0"
    by (simp add: updateOrderRow_def)
  from r0(1) have "?f r0 \<in> ?f ` set (t_orders (db st))"
    by (rule imageI)
  then have r1: "updateOrderRow order r0 \<in> set (t_orders ?D)"
    by (simp add: remoteWritten_orders r0(2))
  have len: "length (rev (sort_key created_at (t_orders ?D))) \<le> n"
    if "length (t_orders (db st)) \<le> n" for n
    using that by (simp add: remoteWritten_orders)
  have whole: "take 200 (rev (sort_key created_at (t_orders ?D)))
      = rev (sort_key created_at (t_orders ?D))"
    by (rule take_all [OF len [OF few]])
  have "fst (fetchOrders False env' True False (snd (updateOrder False env order cu st)))
      = map mapOrderRow (map (embed ?D) (take 200 (rev (sort_key created_at (t_orders ?D)))))"
    using sel by (simp add: fetchOrders_def Let_def selectOrders_def D)
  then have res: "fst (fetchOrders False env' True False
                         (snd (updateOrder False env order cu st)))
      = map mapOrderRow (map (embed ?D) (rev (sort_key created_at (t_orders ?D))))"
    by (simp only: whole)
  from r1 have "mapOrderRow (embed ?D (updateOrderRow order r0))
      \<in> set (fst (fetchOrders False env' True False
                     (snd (updateOrder False env order cu st))))"
    unfolding res by simp
  moreover have "o_id (mapOrderRow (embed ?D (updateOrderRow order r0))) = o_id order"
    by (simp add: o_id_mapOrderRow row_embed keep r0)
  ultimately show ?thesis
    by blast
qed

text \<open>
  The local branch stores the argument itself, and a forced fetch returns the stored list
  revived; an order whose \<open>workingStartTime\<close> is not \<open>null\<close> is its own revival.
\<close>

lemma revive_same: "workingStartTime r \<noteq> Null \<Longrightarrow> reviveOrder r = r"
  by (cases "workingStartTime r")
    (simp_all add: reviveOrder_def present_simps orUndefined_simps)

lemma round_trip_local:
  assumes upd: "fst (updateOrder True env order cu st)"
    and found: "list_ex (\<lambda>r. o_id r = o_id order) (savedList st)"
    and rd: "\<not> fails env' LocalRead"
  shows "fst (fetchOrders True env' True prioritizeActive (snd (updateOrder True env order cu st)))
           = map reviveOrder
               (updateFirst (\<lambda>r. o_id r = o_id order) (\<lambda>_. order) (savedList st))
       \<and> reviveOrder order
           \<in> set (fst (fetchOrders True env' True prioritizeActive
                          (snd (updateOrder True env order cu st))))"
proof -
  have s: "savedList (st\<lparr>ordersCache := c\<rparr>) = savedList st" for c
    by (simp add: savedList_def)
  from upd found have l: "localOrders (snd (updateOrder True env order cu st))
      = Some (updateFirst (\<lambda>r. o_id r = o_id order) (\<lambda>_. order) (savedList st))"
    by (auto simp: updateOrder_def Let_def s split: if_splits)
  have m: "list_ex P xs \<Longrightarrow> y \<in> set (updateFirst P (\<lambda>_. y) xs)" for P and y :: Order and xs
    by (induction xs) auto
  from rd l m [OF found] show ?thesis
    by (simp add: fetchOrders_def Let_def)
qed

text \<open>
  A zero is lost only on the way back from the backend, and only in the four amounts behind
  a truthiness test. The local branch returns a total of zero as it was sent; and
  \<open>mapOrderRow\<close> reads a product's \<open>quantity\<close>, which it does not test, as zero when it is
  zero.
\<close>

lemma local_zero_total_read_back:
  "fst (updateOrder True okEnv (localOrder\<lparr>totalAmount := Val 0\<rparr>) None workState) = True
   \<and> fst (fetchOrders True okEnv True False
            (snd (updateOrder True okEnv (localOrder\<lparr>totalAmount := Val 0\<rparr>) None workState)))
       = [localOrder\<lparr>totalAmount := Val 0\<rparr>]"
  by code_simp

lemma zero_quantity_read_back: "p_quantity (mapProductRow (p\<lparr>pr_quantity := 0\<rparr>)) = 0"
  by (simp add: mapProductRow_def)

text \<open>
  C2 at the failing input, in remote mode: the backend and the cache hold the sample
  order, and the order argument is that order with a \<open>totalAmount\<close> of 0. The update
  returns true and the backend stores the 0; the forced fetch returns the order with
  \<open>totalAmount\<close> \<open>undefined\<close>, and equal to the argument in every other field.
\<close>

theorem C2_zero_total_not_read_back:
  "fst (updateOrder False okEnv zeroOrder None workState) = True
   \<and> totalAmount zeroOrder = Val 0
   \<and> map total_amount
        (t_orders (db (snd (updateOrder False okEnv zeroOrder None workState)))) = [Some 0]
   \<and> fst (fetchOrders False okEnv True False
            (snd (updateOrder False okEnv zeroOrder None workState)))
       = [zeroOrder\<lparr>totalAmount := Undefined\<rparr>]"
  by code_simp

end
